theory Spec2Isabelle
  imports Main
begin

section \<open>The Mermaid-to-PNG batch converter\<close>

text \<open>
  A shallow embedding of \<^verbatim>\<open>.github/scripts/mermaid-to-png.mjs\<close>. The script runs on
  Node.js; the embedding fixes a POSIX host. JavaScript strings are modelled as
  \<^typ>\<open>string\<close> (a list of 8-bit characters, UTF-8 for anything beyond ASCII), promises
  as explicit state passing over a \<open>world\<close>, and a rejected promise or thrown value as the
  \<open>Inl\<close> branch of a sum.
\<close>

subsection \<open>Strings\<close>

type_synonym path = string

text \<open>The regular-expression class \<^verbatim>\<open>\w\<close> (without the unicode flag): ASCII letters, digits, underscore.\<close>

definition is_word :: "char \<Rightarrow> bool" where
  "is_word c =
     (c \<in> set ''abcdefghijklmnopqrstuvwxyzABCDEFGHIJKLMNOPQRSTUVWXYZ0123456789_'')"

text \<open>Case folding of the \<^verbatim>\<open>i\<close> flag, which on an ASCII pattern only identifies ASCII letters.\<close>

definition lower :: "char \<Rightarrow> char" where
  "lower c =
     (case map_of (zip ''ABCDEFGHIJKLMNOPQRSTUVWXYZ'' ''abcdefghijklmnopqrstuvwxyz'') c of
        Some d \<Rightarrow> d
      | None \<Rightarrow> c)"

definition ends_with_ci :: "string \<Rightarrow> string \<Rightarrow> bool" where
  "ends_with_ci suf s =
     (length suf \<le> length s \<and> map lower (drop (length s - length suf) s) = map lower suf)"

text \<open>\<^verbatim>\<open>s.replace(/\W+/g, "_")\<close>: every maximal run of non-word characters becomes one underscore.\<close>

function replace_nonword :: "string \<Rightarrow> string" where
  "replace_nonword [] = []"
| "replace_nonword (c # cs) =
     (if is_word c then c # replace_nonword cs
      else CHR ''_'' # replace_nonword (dropWhile (\<lambda>d. \<not> is_word d) cs))"
  by pat_completeness auto
termination
  by (relation "measure length") (auto simp: length_dropWhile_le less_Suc_eq_le)

text \<open>
  \<^verbatim>\<open>s.replace(/\.(mmd|mermaid|txt)$/i, ".png")\<close>: the pattern is anchored at the end of the
  string, so it matches at most once, and only a final \<^verbatim>\<open>.mmd\<close>, \<^verbatim>\<open>.mermaid\<close> or
  \<^verbatim>\<open>.txt\<close> in any letter case. A string the pattern does not match is returned unchanged.
\<close>

definition source_exts :: "string list" where
  "source_exts = [''.mmd'', ''.mermaid'', ''.txt'']"

definition replace_source_ext :: "string \<Rightarrow> string" where
  "replace_source_ext s =
     (case find (\<lambda>e. ends_with_ci e s) source_exts of
        Some e \<Rightarrow> take (length s - length e) s @ ''.png''
      | None \<Rightarrow> s)"

text \<open>A non-negative integer in a template literal: its decimal digits.\<close>

definition digit_char :: "nat \<Rightarrow> char" where
  "digit_char d = ''0123456789'' ! d"

fun dec :: "nat \<Rightarrow> string" where
  "dec n = (if n < 10 then [digit_char n] else dec (n div 10) @ [digit_char (n mod 10)])"

declare dec.simps [simp del]

subsection \<open>The \<^verbatim>\<open>node:path\<close> functions used by the script (POSIX flavour)\<close>

fun split_slash_acc :: "string \<Rightarrow> string \<Rightarrow> string list" where
  "split_slash_acc seg [] = [rev seg]"
| "split_slash_acc seg (c # cs) =
     (if c = CHR ''/'' then rev seg # split_slash_acc [] cs else split_slash_acc (c # seg) cs)"

definition split_slash :: "string \<Rightarrow> string list" where
  "split_slash s = split_slash_acc [] s"

fun join_slash :: "string list \<Rightarrow> string" where
  "join_slash [] = []"
| "join_slash [s] = s"
| "join_slash (s # t # ss) = s @ ''/'' @ join_slash (t # ss)"

text \<open>
  \<^verbatim>\<open>normalizeString\<close>: empty and \<^verbatim>\<open>.\<close> segments vanish, \<^verbatim>\<open>..\<close> removes the segment before it;
  above the start it is kept for a relative path (\<open>up\<close>) and dropped for an absolute one.
  The accumulator holds the segments kept so far, last first.
\<close>

fun normalize_segs :: "bool \<Rightarrow> string list \<Rightarrow> string list \<Rightarrow> string list" where
  "normalize_segs up acc [] = rev acc"
| "normalize_segs up acc (s # ss) =
     (if s = [] \<or> s = ''.'' then normalize_segs up acc ss
      else if s = ''..'' then
        (case acc of
           [] \<Rightarrow> normalize_segs up (if up then [''..''] else []) ss
         | a # rest \<Rightarrow>
             if a = ''..'' then normalize_segs up (if up then ''..'' # acc else acc) ss
             else normalize_segs up rest ss)
      else normalize_segs up (s # acc) ss)"

definition is_absolute :: "path \<Rightarrow> bool" where
  "is_absolute p = (p \<noteq> [] \<and> hd p = CHR ''/'')"

definition path_normalize :: "path \<Rightarrow> path" where
  "path_normalize p =
     (if p = [] then ''.''
      else let abs = is_absolute p;
               trailing = (last p = CHR ''/'');
               s = join_slash (normalize_segs (\<not> abs) [] (split_slash p))
           in if s = [] then (if abs then ''/'' else if trailing then ''./'' else ''.'')
              else (if abs then ''/'' else []) @ s @ (if trailing then ''/'' else []))"

text \<open>\<^verbatim>\<open>path.join(a, b)\<close>: the non-empty arguments, joined by a slash and normalised.\<close>

definition path_join :: "path \<Rightarrow> path \<Rightarrow> path" where
  "path_join a b =
     (let parts = filter (\<lambda>s. s \<noteq> []) [a, b]
      in if parts = [] then ''.'' else path_normalize (join_slash parts))"

text \<open>
  \<^verbatim>\<open>path.resolve(p)\<close> in working directory \<open>wd\<close> (an absolute path): \<open>p\<close> itself when
  absolute, else \<open>p\<close> below \<open>wd\<close>; normalised, with no trailing slash.
\<close>

definition resolved_segs :: "path \<Rightarrow> path \<Rightarrow> string list" where
  "resolved_segs wd p =
     normalize_segs False [] (split_slash (if is_absolute p then p else wd @ ''/'' @ p))"

definition path_resolve :: "path \<Rightarrow> path \<Rightarrow> path" where
  "path_resolve wd p = ''/'' @ join_slash (resolved_segs wd p)"

text \<open>
  \<^verbatim>\<open>path.basename(p)\<close>: trailing slashes are ignored, then everything after the last
  remaining slash is returned.
\<close>

definition path_basename :: "path \<Rightarrow> string" where
  "path_basename p =
     rev (takeWhile (\<lambda>c. c \<noteq> CHR ''/'') (dropWhile (\<lambda>c. c = CHR ''/'') (rev p)))"

text \<open>
  \<^verbatim>\<open>path.relative(from, to)\<close>: both are resolved, their common leading segments are dropped,
  and one \<^verbatim>\<open>..\<close> is written for every remaining segment of \<open>from\<close>.
\<close>

fun drop_common :: "string list \<Rightarrow> string list \<Rightarrow> string list \<times> string list" where
  "drop_common (x # xs) (y # ys) = (if x = y then drop_common xs ys else (x # xs, y # ys))"
| "drop_common xs ys = (xs, ys)"

definition path_relative :: "path \<Rightarrow> path \<Rightarrow> path \<Rightarrow> path" where
  "path_relative wd from to =
     (let (rf, rt) = drop_common (resolved_segs wd from) (resolved_segs wd to)
      in join_slash (map (\<lambda>_. ''..'') rf @ rt))"

subsection \<open>Configuration\<close>

text \<open>The process: its environment variables (unset is \<open>None\<close>) and its working directory.\<close>

record process =
  env_INPUT_PATTERN :: "string option"
  env_OUTPUT_DIR :: "string option"
  env_MERMAID_THEME :: "string option"
  cwd :: path

text \<open>\<^verbatim>\<open>process.env.X || d\<close>: the default also replaces a variable set to the empty string.\<close>

definition or_default :: "string option \<Rightarrow> string \<Rightarrow> string" where
  "or_default v d = (case v of None \<Rightarrow> d | Some s \<Rightarrow> if s = [] then d else s)"

definition INPUT_PATTERN :: "process \<Rightarrow> string" where
  "INPUT_PATTERN pr = or_default (env_INPUT_PATTERN pr) ''diagrams/**/*.mmd''"

definition OUTPUT_DIR :: "process \<Rightarrow> string" where
  "OUTPUT_DIR pr = or_default (env_OUTPUT_DIR pr) ''diagrams''"

definition MERMAID_THEME :: "process \<Rightarrow> string" where
  "MERMAID_THEME pr = or_default (env_MERMAID_THEME pr) ''default''"

subsection \<open>Errors\<close>

datatype error = Error (message: string) (stack: string)

text \<open>\<^verbatim>\<open>e.stack || e\<close> inside a template literal.\<close>

definition stack_or_self :: "error \<Rightarrow> string" where
  "stack_or_self e = (if stack e \<noteq> [] then stack e else ''Error: '' @ message e)"

definition fs_error :: "string \<Rightarrow> string \<Rightarrow> path \<Rightarrow> error" where
  "fs_error errno syscall p =
     (let m = errno @ '': '' @ syscall @ '' '' @ p in Error m (''Error: '' @ m))"

subsection \<open>The file system (\<^verbatim>\<open>node:fs/promises\<close>)\<close>

text \<open>
  An entry is keyed by the segments of its absolute normalised path, so the root
  directory is \<open>[]\<close> and always exists; the first entry for a key is the one that counts.
  Every operation resolves the path it is given against the working directory first.
\<close>

datatype node = File string | Dir

type_synonym fsys = "(string list \<times> node) list"

definition node_at :: "fsys \<Rightarrow> string list \<Rightarrow> node option" where
  "node_at fs k = (if k = [] then Some Dir else map_of fs k)"

definition fs_put :: "string list \<Rightarrow> node \<Rightarrow> fsys \<Rightarrow> fsys" where
  "fs_put k n fs = (k, n) # filter (\<lambda>e. fst e \<noteq> k) fs"

definition path_of :: "string list \<Rightarrow> path" where
  "path_of k = ''/'' @ join_slash k"

text \<open>\<^verbatim>\<open>fs.readFile(p, "utf8")\<close>.\<close>

definition readFile :: "path \<Rightarrow> fsys \<Rightarrow> path \<Rightarrow> error + string" where
  "readFile wd fs p =
     (let k = resolved_segs wd p
      in case node_at fs k of
           Some (File text) \<Rightarrow> Inr text
         | Some Dir \<Rightarrow> Inl (fs_error ''EISDIR'' ''read'' (path_of k))
         | None \<Rightarrow> Inl (fs_error ''ENOENT'' ''open'' (path_of k)))"

text \<open>
  \<^verbatim>\<open>fs.mkdir(p, { recursive: true })\<close>: walks down from the root; a directory that exists
  is passed, a missing one is created, a regular file in the way is an error. The file
  system is returned in either case.
\<close>

fun mkdirs :: "fsys \<Rightarrow> string list \<Rightarrow> string list \<Rightarrow> (error + unit) \<times> fsys" where
  "mkdirs fs d [] = (Inr (), fs)"
| "mkdirs fs d (s # ss) =
     (case node_at fs (d @ [s]) of
        Some Dir \<Rightarrow> mkdirs fs (d @ [s]) ss
      | Some (File _) \<Rightarrow>
          (Inl (fs_error (if ss = [] then ''EEXIST'' else ''ENOTDIR'') ''mkdir'' (path_of (d @ [s]))), fs)
      | None \<Rightarrow> mkdirs (fs_put (d @ [s]) Dir fs) (d @ [s]) ss)"

definition mkdir_recursive :: "path \<Rightarrow> fsys \<Rightarrow> path \<Rightarrow> (error + unit) \<times> fsys" where
  "mkdir_recursive wd fs p = mkdirs fs [] (resolved_segs wd p)"

text \<open>\<^verbatim>\<open>fs.writeFile(p, data)\<close>: creates or replaces a regular file in an existing directory.\<close>

definition writeFile :: "path \<Rightarrow> fsys \<Rightarrow> path \<Rightarrow> string \<Rightarrow> error + fsys" where
  "writeFile wd fs p data =
     (let k = resolved_segs wd p
      in case node_at fs k of
           Some Dir \<Rightarrow> Inl (fs_error ''EISDIR'' ''open'' (path_of k))
         | _ \<Rightarrow>
             (case node_at fs (butlast k) of
                Some Dir \<Rightarrow> Inr (fs_put k (File data) fs)
              | Some (File _) \<Rightarrow> Inl (fs_error ''ENOTDIR'' ''open'' (path_of k))
              | None \<Rightarrow> Inl (fs_error ''ENOENT'' ''open'' (path_of k))))"

text \<open>
  A file system is well formed when every entry lies in a directory. The operations
  above keep it so; a real file system is never otherwise.
\<close>

definition wf_fs :: "fsys \<Rightarrow> bool" where
  "wf_fs fs = list_all (\<lambda>e. node_at fs (butlast (fst e)) = Some Dir) fs"

subsection \<open>The libraries the script composes\<close>

text \<open>
  The renderer, the rasteriser and the glob matcher are third-party packages; the script
  fixes only the arguments it passes to them. Their behaviour is a parameter of the
  embedding, so every theorem about \<open>renderOne\<close> and \<open>main\<close> holds whatever they do. The
  renderer works on the process-wide virtual document (\<^verbatim>\<open>global.document\<close>), which it may
  read and change: that state has type \<open>'d\<close>.
\<close>

record mermaid_config =
  startOnLoad :: bool
  theme :: string
  securityLevel :: string
  flowchart_htmlLabels :: bool
  fontFamily :: string

record resvg_options =
  background :: string
  font_loadSystemFonts :: bool

record fg_options =
  dot :: bool
  absolute :: bool
  onlyFiles :: bool
  unique :: bool
  caseSensitiveMatch :: bool

record 'd libs =
  fg :: "string list \<Rightarrow> fg_options \<Rightarrow> path \<Rightarrow> fsys \<Rightarrow> error + path list"
  mermaid_render :: "mermaid_config \<Rightarrow> 'd \<Rightarrow> string \<Rightarrow> string \<Rightarrow> (error + string) \<times> 'd"
  resvg_asPng :: "resvg_options \<Rightarrow> string \<Rightarrow> error + string"

text \<open>The argument of \<^verbatim>\<open>mermaid.initialize\<close>, of \<^verbatim>\<open>new Resvg\<close> and of \<^verbatim>\<open>fg\<close>.\<close>

definition mermaid_initialize :: "process \<Rightarrow> mermaid_config" where
  "mermaid_initialize pr =
     \<lparr>startOnLoad = False, theme = MERMAID_THEME pr, securityLevel = ''strict'',
      flowchart_htmlLabels = False, fontFamily = ''Arial, sans-serif''\<rparr>"

definition resvg_opts :: resvg_options where
  "resvg_opts = \<lparr>background = ''white'', font_loadSystemFonts = True\<rparr>"

definition main_fg_options :: fg_options where
  "main_fg_options =
     \<lparr>dot = False, absolute = True, onlyFiles = True, unique = True,
      caseSensitiveMatch = False\<rparr>"

subsection \<open>The world\<close>

text \<open>
  Everything the script reads or changes while it runs: the file system, the clock
  (\<open>clock w n\<close> is what the \<open>n\<close>-th call of \<^verbatim>\<open>Date.now()\<close> returns; the host decides it),
  the console and the virtual document.
\<close>

datatype stream = Stdout | Stderr

record 'd world =
  fsys :: fsys
  clock :: "nat \<Rightarrow> nat"
  tick :: nat
  console :: "(stream \<times> string) list"
  document :: 'd

definition Date_now :: "'d world \<Rightarrow> nat \<times> 'd world" where
  "Date_now w = (clock w (tick w), w\<lparr>tick := Suc (tick w)\<rparr>)"

definition console_log :: "string \<Rightarrow> 'd world \<Rightarrow> 'd world" where
  "console_log s w = w\<lparr>console := console w @ [(Stdout, s)]\<rparr>"

definition console_error :: "string \<Rightarrow> 'd world \<Rightarrow> 'd world" where
  "console_error s w = w\<lparr>console := console w @ [(Stderr, s)]\<rparr>"

subsection \<open>\<^verbatim>\<open>renderOne\<close>\<close>

definition ensureDir :: "path \<Rightarrow> fsys \<Rightarrow> path \<Rightarrow> (error + unit) \<times> fsys" where
  "ensureDir wd fs p = mkdir_recursive wd fs p"

definition diagram_id :: "path \<Rightarrow> nat \<Rightarrow> string" where
  "diagram_id mmdPath now = ''mmd_'' @ replace_nonword (path_basename mmdPath) @ ''_'' @ dec now"

definition out_name :: "path \<Rightarrow> string" where
  "out_name mmdPath = replace_source_ext (path_basename mmdPath)"

definition out_path :: "process \<Rightarrow> path \<Rightarrow> path" where
  "out_path pr mmdPath = path_join (path_resolve (cwd pr) (OUTPUT_DIR pr)) (out_name mmdPath)"

definition renderOne :: "'d libs \<Rightarrow> process \<Rightarrow> path \<Rightarrow> 'd world \<Rightarrow> (error + path) \<times> 'd world" where
  "renderOne L pr mmdPath w =
     (case readFile (cwd pr) (fsys w) mmdPath of
        Inl e \<Rightarrow> (Inl e, w)
      | Inr src \<Rightarrow>
          let (now, w1) = Date_now w;
              ident = diagram_id mmdPath now;
              (r, d) = mermaid_render L (mermaid_initialize pr) (document w1) ident src;
              w2 = w1\<lparr>document := d\<rparr>
          in case r of
               Inl e \<Rightarrow> (Inl e, w2)
             | Inr svg \<Rightarrow>
                 (case resvg_asPng L resvg_opts svg of
                    Inl e \<Rightarrow> (Inl e, w2)
                  | Inr pngData \<Rightarrow>
                      let outDir = path_resolve (cwd pr) (OUTPUT_DIR pr);
                          (m, fs1) = ensureDir (cwd pr) (fsys w2) outDir;
                          w3 = w2\<lparr>fsys := fs1\<rparr>
                      in case m of
                           Inl e \<Rightarrow> (Inl e, w3)
                         | Inr _ \<Rightarrow>
                             let outName = replace_source_ext (path_basename mmdPath);
                                 outPath = path_join outDir outName
                             in (case writeFile (cwd pr) (fsys w3) outPath pngData of
                                   Inl e \<Rightarrow> (Inl e, w3)
                                 | Inr fs2 \<Rightarrow> (Inr outPath, w3\<lparr>fsys := fs2\<rparr>))))"

subsection \<open>\<^verbatim>\<open>main\<close> and the top level\<close>

text \<open>The check mark, the cross and the arrow of the log lines, in UTF-8.\<close>

definition check_mark :: string where
  "check_mark = [CHR 0xE2, CHR 0x9C, CHR 0x93]"

definition cross_mark :: string where
  "cross_mark = [CHR 0xE2, CHR 0x9C, CHR 0x97]"

definition arrow :: string where
  "arrow = [CHR 0xE2, CHR 0x86, CHR 0x92]"

definition success_line :: "process \<Rightarrow> path \<Rightarrow> path \<Rightarrow> string" where
  "success_line pr f out =
     check_mark @ '' '' @ path_relative (cwd pr) (cwd pr) f @ '' '' @ arrow @ '' ''
       @ path_relative (cwd pr) (cwd pr) out"

definition failure_line :: "path \<Rightarrow> error \<Rightarrow> string" where
  "failure_line f e = cross_mark @ '' Failed: '' @ f @ [CHR 0x0A] @ stack_or_self e"

definition summary_line :: "nat \<Rightarrow> nat \<Rightarrow> string" where
  "summary_line ok fail = ''Done. Success: '' @ dec ok @ '', Failed: '' @ dec fail"

text \<open>One pass of the \<^verbatim>\<open>for\<close> loop body, with its \<^verbatim>\<open>try\<close>/\<^verbatim>\<open>catch\<close>.\<close>

definition loop_body :: "'d libs \<Rightarrow> process \<Rightarrow> path \<Rightarrow> nat \<times> nat \<times> 'd world \<Rightarrow> nat \<times> nat \<times> 'd world" where
  "loop_body L pr f s =
     (case s of (ok, fail, w) \<Rightarrow>
        (case renderOne L pr f w of
           (Inr out, w1) \<Rightarrow> (ok + 1, fail, console_log (success_line pr f out) w1)
         | (Inl e, w1) \<Rightarrow> (ok, fail + 1, console_error (failure_line f e) w1)))"

fun main_loop :: "'d libs \<Rightarrow> process \<Rightarrow> path list \<Rightarrow> nat \<times> nat \<times> 'd world \<Rightarrow> nat \<times> nat \<times> 'd world" where
  "main_loop L pr [] s = s"
| "main_loop L pr (f # files) s = main_loop L pr files (loop_body L pr f s)"

definition main :: "'d libs \<Rightarrow> process \<Rightarrow> 'd world \<Rightarrow> (error + unit) \<times> 'd world" where
  "main L pr w =
     (case fg L [INPUT_PATTERN pr] main_fg_options (cwd pr) (fsys w) of
        Inl e \<Rightarrow> (Inl e, w)
      | Inr files \<Rightarrow>
          if length files = 0
          then (Inr (), console_log (''No Mermaid files matched pattern: '' @ INPUT_PATTERN pr) w)
          else
            let w1 = console_log (''Rendering '' @ dec (length files)
                       @ '' Mermaid file(s) to PNG (no browser)...'') w;
                (ok, fail, w2) = main_loop L pr files (0, 0, w1)
            in (Inr (), console_log (summary_line ok fail) w2))"

text \<open>
  The last statement of the script: \<^verbatim>\<open>main().catch(e => { console.error(e); process.exit(1) })\<close>.
  A run whose \<^verbatim>\<open>main\<close> resolves ends with exit status 0.
\<close>

definition script :: "'d libs \<Rightarrow> process \<Rightarrow> 'd world \<Rightarrow> nat \<times> 'd world" where
  "script L pr w =
     (case main L pr w of
        (Inl e, w1) \<Rightarrow> (1, console_error (stack_or_self e) w1)
      | (Inr _, w1) \<Rightarrow> (0, w1))"

subsection \<open>The two halves of \<^verbatim>\<open>renderOne\<close>\<close>

text \<open>
  Lines 38 to 52 of the script read the source, render it and rasterise the SVG; lines 54
  to 61 create the output directory and write the PNG. The two halves are named here so
  that theorems can speak of the step at which a file fails; \<open>renderOne_halves\<close> below
  shows that \<open>renderOne\<close> is the first followed by the second.
\<close>

definition to_png :: "'d libs \<Rightarrow> process \<Rightarrow> path \<Rightarrow> 'd world \<Rightarrow> (error + string) \<times> 'd world" where
  "to_png L pr mmdPath w =
     (case readFile (cwd pr) (fsys w) mmdPath of
        Inl e \<Rightarrow> (Inl e, w)
      | Inr src \<Rightarrow>
          let (now, w1) = Date_now w;
              ident = diagram_id mmdPath now;
              (r, d) = mermaid_render L (mermaid_initialize pr) (document w1) ident src;
              w2 = w1\<lparr>document := d\<rparr>
          in case r of
               Inl e \<Rightarrow> (Inl e, w2)
             | Inr svg \<Rightarrow>
                 (case resvg_asPng L resvg_opts svg of
                    Inl e \<Rightarrow> (Inl e, w2)
                  | Inr pngData \<Rightarrow> (Inr pngData, w2)))"

definition write_png :: "process \<Rightarrow> path \<Rightarrow> string \<Rightarrow> 'd world \<Rightarrow> (error + path) \<times> 'd world" where
  "write_png pr mmdPath pngData w2 =
     (let outDir = path_resolve (cwd pr) (OUTPUT_DIR pr);
          (m, fs1) = ensureDir (cwd pr) (fsys w2) outDir;
          w3 = w2\<lparr>fsys := fs1\<rparr>
      in case m of
           Inl e \<Rightarrow> (Inl e, w3)
         | Inr _ \<Rightarrow>
             let outName = replace_source_ext (path_basename mmdPath);
                 outPath = path_join outDir outName
             in (case writeFile (cwd pr) (fsys w3) outPath pngData of
                   Inl e \<Rightarrow> (Inl e, w3)
                 | Inr fs2 \<Rightarrow> (Inr outPath, w3\<lparr>fsys := fs2\<rparr>)))"

subsection \<open>The File Locator\<close>

text \<open>
  Modelled from the spec: the File Locator is the \<^verbatim>\<open>fast-glob\<close> package, which is not among
  the sources; the script only chooses its options. Section 4.1 of the specification
  gives its contract: the matching files as absolute paths, deduplicated, excluding
  directories, excluding hidden files unless requested, matched case-insensitively, and an
  invalid pattern fails. The options of the call select each of these. A path is looked
  for below the working directory and matched by its path relative to it; what a pattern
  matches (\<open>matches\<close>) is left open.
\<close>

definition hidden :: "string list \<Rightarrow> bool" where
  "hidden rel = list_ex (\<lambda>s. s \<noteq> [] \<and> hd s = CHR ''.'') rel"

definition below :: "string list \<Rightarrow> string list \<Rightarrow> string list option" where
  "below base k =
     (if length base < length k \<and> take (length base) k = base
      then Some (drop (length base) k) else None)"

definition is_file :: "fsys \<Rightarrow> string list \<Rightarrow> bool" where
  "is_file fs k = (case node_at fs k of Some (File _) \<Rightarrow> True | _ \<Rightarrow> False)"

definition fg_hit ::
  "(string \<Rightarrow> string \<Rightarrow> bool) \<Rightarrow> string list \<Rightarrow> fg_options \<Rightarrow> string list \<Rightarrow> fsys \<Rightarrow> string list \<Rightarrow> bool" where
  "fg_hit matches patterns opts base fs k =
     (case below base k of
        None \<Rightarrow> False
      | Some rel \<Rightarrow>
          (is_file fs k \<or> \<not> onlyFiles opts) \<and> (dot opts \<or> \<not> hidden rel) \<and>
          list_ex (\<lambda>p. if caseSensitiveMatch opts then matches p (join_slash rel)
                        else matches (map lower p) (map lower (join_slash rel))) patterns)"

definition fast_glob ::
  "(string \<Rightarrow> string \<Rightarrow> bool) \<Rightarrow> string list \<Rightarrow> fg_options \<Rightarrow> path \<Rightarrow> fsys \<Rightarrow> error + path list" where
  "fast_glob matches patterns opts wd fs =
     (if list_ex (\<lambda>p. p = []) patterns
      then Inl (Error ''Patterns must be a string (non empty) or an array of strings'' [])
      else
        let base = resolved_segs wd wd;
            found = map (\<lambda>k. if absolute opts then path_of k else join_slash (drop (length base) k))
                      (filter (fg_hit matches patterns opts base fs) (map fst fs))
        in Inr (if unique opts then remdups found else found))"

text \<open>The call of \<^verbatim>\<open>main\<close>, on this locator.\<close>

definition locate :: "(string \<Rightarrow> string \<Rightarrow> bool) \<Rightarrow> process \<Rightarrow> fsys \<Rightarrow> error + path list" where
  "locate matches pr fs = fast_glob matches [INPUT_PATTERN pr] main_fg_options (cwd pr) fs"

subsection \<open>Stand-ins for the libraries, for worked examples\<close>

text \<open>
  A small glob grammar: \<^verbatim>\<open>*\<close> and \<^verbatim>\<open>?\<close> inside a segment, \<^verbatim>\<open>**\<close> for any number of
  segments.
\<close>

fun seg_match :: "string \<Rightarrow> string \<Rightarrow> bool" where
  "seg_match [] s = (s = [])"
| "seg_match (c # p) [] = (c = CHR ''*'' \<and> seg_match p [])"
| "seg_match (c # p) (d # s) =
     (if c = CHR ''*'' then seg_match p (d # s) \<or> seg_match (c # p) s
      else (c = CHR ''?'' \<or> c = d) \<and> seg_match p s)"

fun segs_match :: "string list \<Rightarrow> string list \<Rightarrow> bool" where
  "segs_match [] ks = (ks = [])"
| "segs_match (p # ps) [] = (p = ''**'' \<and> segs_match ps [])"
| "segs_match (p # ps) (k # ks) =
     (if p = ''**'' then segs_match ps (k # ks) \<or> segs_match (p # ps) ks
      else seg_match p k \<and> segs_match ps ks)"

definition glob_match :: "string \<Rightarrow> string \<Rightarrow> bool" where
  "glob_match pat rel = segs_match (split_slash pat) (split_slash rel)"

text \<open>
  A renderer that accepts a source starting with \<^verbatim>\<open>graph\<close> and rejects anything else; the
  document it works on is the list of identifiers it has been given. A rasteriser that
  accepts what starts like SVG.
\<close>

definition demo_render :: "mermaid_config \<Rightarrow> string list \<Rightarrow> string \<Rightarrow> string \<Rightarrow> (error + string) \<times> string list" where
  "demo_render cfg d ident src =
     (if take 5 src = ''graph'' then Inr (''<svg>'' @ src @ ''</svg>'')
      else Inl (Error ''Parse error on line 1'' []), d @ [ident])"

definition demo_asPng :: "resvg_options \<Rightarrow> string \<Rightarrow> error + string" where
  "demo_asPng opts svg =
     (if take 4 svg = ''<svg'' then Inr (''PNG '' @ svg)
      else Inl (Error ''SVG data parsing failed'' []))"

definition demo_libs :: "string list libs" where
  "demo_libs = \<lparr>fg = fast_glob glob_match, mermaid_render = demo_render, resvg_asPng = demo_asPng\<rparr>"

definition demo_process :: process where
  "demo_process = \<lparr>env_INPUT_PATTERN = None, env_OUTPUT_DIR = None, env_MERMAID_THEME = None,
     cwd = ''/w''\<rparr>"

definition demo_world :: "fsys \<Rightarrow> (nat \<Rightarrow> nat) \<Rightarrow> string list world" where
  "demo_world fs clk = \<lparr>fsys = fs, clock = clk, tick = 0, console = [], document = []\<rparr>"

text \<open>The example of the specification: a valid \<^verbatim>\<open>a.mmd\<close> beside a malformed \<^verbatim>\<open>b.mmd\<close>.\<close>

definition two_files :: fsys where
  "two_files =
     [([''w''], Dir), ([''w'', ''diagrams''], Dir),
      ([''w'', ''diagrams'', ''a.mmd''], File ''graph TD; A-->B''),
      ([''w'', ''diagrams'', ''b.mmd''], File ''grph TD; A--'')]"

definition only_bad :: fsys where
  "only_bad =
     [([''w''], Dir), ([''w'', ''diagrams''], Dir),
      ([''w'', ''diagrams'', ''b.mmd''], File ''grph TD; A--'')]"

text \<open>Two malformed sources.\<close>

definition both_bad :: fsys where
  "both_bad =
     [([''w''], Dir), ([''w'', ''diagrams''], Dir),
      ([''w'', ''diagrams'', ''b.mmd''], File ''grph TD; A--''),
      ([''w'', ''diagrams'', ''c.mmd''], File ''sequenceDiagrm'')]"

definition no_sources :: fsys where
  "no_sources = [([''w''], Dir), ([''w'', ''diagrams''], Dir)]"

definition ms :: "nat \<Rightarrow> nat" where
  "ms n = 1700000000000 + 40 * n"

text \<open>An output directory whose name is taken by a regular file.\<close>

definition blocked_out :: fsys where
  "blocked_out =
     [([''w''], Dir), ([''w'', ''diagrams''], Dir),
      ([''w'', ''diagrams'', ''a.mmd''], File ''graph TD; A-->B''),
      ([''w'', ''out''], File ''not a directory'')]"

definition out_process :: process where
  "out_process = \<lparr>env_INPUT_PATTERN = None, env_OUTPUT_DIR = Some ''out'',
     env_MERMAID_THEME = None, cwd = ''/w''\<rparr>"

text \<open>Two sources with the same basename in different directories.\<close>

definition same_names :: fsys where
  "same_names =
     [([''w''], Dir), ([''w'', ''diagrams''], Dir),
      ([''w'', ''diagrams'', ''a''], Dir), ([''w'', ''diagrams'', ''b''], Dir),
      ([''w'', ''diagrams'', ''a'', ''x.mmd''], File ''grph TD; A--''),
      ([''w'', ''diagrams'', ''b'', ''x.mmd''], File ''graph TD; A-->B'')]"

text \<open>A source kept under another extension, selected by \<^verbatim>\<open>INPUT_PATTERN=notes/*.md\<close>.\<close>

definition md_notes :: fsys where
  "md_notes =
     [([''w''], Dir), ([''w'', ''diagrams''], Dir), ([''w'', ''notes''], Dir),
      ([''w'', ''notes'', ''a.md''], File ''graph TD; A-->B'')]"

definition notes_process :: process where
  "notes_process = \<lparr>env_INPUT_PATTERN = Some ''notes/*.md'', env_OUTPUT_DIR = None,
     env_MERMAID_THEME = None, cwd = ''/w''\<rparr>"

subsection \<open>The naming rule as the specification words it\<close>

text \<open>
  ``The input file's basename with its source extension replaced by \<^verbatim>\<open>.png\<close>'': the
  extension is what follows the last dot of the basename, the dot included.
\<close>

definition spec_out_name :: "string \<Rightarrow> string" where
  "spec_out_name b =
     (if CHR ''.'' \<in> set b then rev (tl (dropWhile (\<lambda>c. c \<noteq> CHR ''.'') (rev b))) else b)
       @ ''.png''"

subsection \<open>What is observed of one conversion\<close>



text \<open>The PNG the two libraries make of a source, if they make one.\<close>

definition rasterised :: "'d libs \<Rightarrow> process \<Rightarrow> 'd \<Rightarrow> string \<Rightarrow> string \<Rightarrow> string option" where
  "rasterised L pr d ident src =
     (case fst (mermaid_render L (mermaid_initialize pr) d ident src) of
        Inl e \<Rightarrow> None
      | Inr svg \<Rightarrow> (case resvg_asPng L resvg_opts svg of Inl e \<Rightarrow> None | Inr png \<Rightarrow> Some png))"


text \<open>A directory where a source and a PNG of the same name are both selected by \<^verbatim>\<open>diagrams/*\<close>.\<close>

definition shadowed :: fsys where
  "shadowed =
     [([''w''], Dir), ([''w'', ''diagrams''], Dir),
      ([''w'', ''diagrams'', ''a.mmd''], File ''graph TD; A-->B''),
      ([''w'', ''diagrams'', ''a.png''], File ''graph LR; X-->Y'')]"

definition star_process :: process where
  "star_process = \<lparr>env_INPUT_PATTERN = Some ''diagrams/*'', env_OUTPUT_DIR = None,
     env_MERMAID_THEME = None, cwd = ''/w''\<rparr>"

text \<open>Two valid sources.\<close>

definition two_good :: fsys where
  "two_good =
     [([''w''], Dir), ([''w'', ''diagrams''], Dir),
      ([''w'', ''diagrams'', ''a.mmd''], File ''graph TD; A-->B''),
      ([''w'', ''diagrams'', ''c.mmd''], File ''graph LR; C-->D'')]"

text \<open>
  Sources in upper and lower case beside a hidden file, a hidden directory, a directory
  named like a source, a file of another kind and a second entry for the first source.
\<close>

definition mixed :: fsys where
  "mixed =
     [([''w''], Dir), ([''w'', ''diagrams''], Dir),
      ([''w'', ''diagrams'', ''a.mmd''], File ''graph TD; A-->B''),
      ([''w'', ''diagrams'', ''B.MMD''], File ''graph TD; B-->C''),
      ([''w'', ''diagrams'', ''.hidden.mmd''], File ''graph TD; H-->I''),
      ([''w'', ''diagrams'', ''.git''], Dir),
      ([''w'', ''diagrams'', ''.git'', ''c.mmd''], File ''graph TD; C-->D''),
      ([''w'', ''diagrams'', ''dir.mmd''], Dir),
      ([''w'', ''diagrams'', ''notes.txt''], File ''notes''),
      ([''w'', ''diagrams'', ''a.mmd''], File ''graph TD; A-->B'')]"

definition upper_process :: process where
  "upper_process = \<lparr>env_INPUT_PATTERN = Some ''DIAGRAMS/**/*.MMD'', env_OUTPUT_DIR = None,
     env_MERMAID_THEME = None, cwd = ''/w''\<rparr>"

section \<open>Properties\<close>

subsection \<open>Unfolding and evaluation\<close>

lemmas str_defs = is_word_def lower_def ends_with_ci_def source_exts_def replace_source_ext_def
  digit_char_def dec.simps split_slash_def is_absolute_def path_normalize_def path_join_def
  resolved_segs_def path_resolve_def path_basename_def path_relative_def

lemmas cfg_defs = or_default_def INPUT_PATTERN_def OUTPUT_DIR_def MERMAID_THEME_def
  stack_or_self_def fs_error_def mermaid_initialize_def resvg_opts_def main_fg_options_def

lemmas fs_defs = node_at_def fs_put_def path_of_def readFile_def mkdir_recursive_def
  writeFile_def wf_fs_def

lemmas run_defs = Date_now_def console_log_def console_error_def ensureDir_def diagram_id_def
  out_name_def out_path_def renderOne_def check_mark_def cross_mark_def arrow_def
  success_line_def failure_line_def summary_line_def loop_body_def main_def script_def
  to_png_def write_png_def

lemmas glob_defs = hidden_def below_def is_file_def fg_hit_def fast_glob_def locate_def
  glob_match_def

lemmas demo_defs = demo_render_def demo_asPng_def demo_libs_def demo_process_def
  demo_world_def two_files_def only_bad_def no_sources_def ms_def blocked_out_def out_process_def
  same_names_def md_notes_def notes_process_def shadowed_def star_process_def two_good_def
  mixed_def upper_process_def both_bad_def

lemmas all_defs = str_defs cfg_defs fs_defs run_defs glob_defs demo_defs Let_def

subsection \<open>\<^verbatim>\<open>renderOne\<close> step by step\<close>

lemma renderOne_halves:
  "renderOne L pr f w =
     (case to_png L pr f w of
        (Inl e, w2) \<Rightarrow> (Inl e, w2)
      | (Inr png, w2) \<Rightarrow> write_png pr f png w2)"
  by (simp add: renderOne_def to_png_def write_png_def Let_def split: sum.splits prod.splits)

lemma to_png_fsys [simp]: "fsys (snd (to_png L pr f w)) = fsys w"
  by (simp add: to_png_def Date_now_def Let_def split: sum.splits prod.splits)

lemma to_png_console [simp]: "console (snd (to_png L pr f w)) = console w"
  by (simp add: to_png_def Date_now_def Let_def split: sum.splits prod.splits)

lemma renderOne_to_png_fails:
  assumes "fst (to_png L pr f w) = Inl e"
  shows "renderOne L pr f w = (Inl e, snd (to_png L pr f w))"
  using assms by (cases "to_png L pr f w") (simp add: renderOne_halves)

lemma renderOne_to_png_ok:
  assumes "fst (to_png L pr f w) = Inr png"
  shows "renderOne L pr f w = write_png pr f png (snd (to_png L pr f w))"
  using assms by (cases "to_png L pr f w") (simp add: renderOne_halves)

lemma loop_body_failure:
  assumes "fst (renderOne L pr f w) = Inl e"
  shows "loop_body L pr f (ok, fail, w) =
           (ok, fail + 1, console_error (failure_line f e) (snd (renderOne L pr f w)))"
  using assms by (cases "renderOne L pr f w") (simp add: loop_body_def)

lemma loop_body_success:
  assumes "fst (renderOne L pr f w) = Inr out"
  shows "loop_body L pr f (ok, fail, w) =
           (ok + 1, fail, console_log (success_line pr f out) (snd (renderOne L pr f w)))"
  using assms by (cases "renderOne L pr f w") (simp add: loop_body_def)

lemma script_exit_0:
  assumes "fg L [INPUT_PATTERN pr] main_fg_options (cwd pr) (fsys w) = Inr files"
  shows "fst (script L pr w) = 0"
  using assms by (simp add: script_def main_def Let_def split: prod.splits)

subsection \<open>Failures of single files\<close>

text \<open>
  C2, as the script has it. The output directory is created inside \<open>renderOne\<close>, hence
  inside the \<^verbatim>\<open>try\<close> block of the loop: when \<open>ensureDir\<close> fails for a file whose source has
  been rasterised, \<open>renderOne\<close> ends with that error, the loop counts the file as failed and
  goes on, and the script still ends with exit status 0.
\<close>

theorem mkdir_failure_is_per_file:
  assumes "fst (to_png L pr f w) = Inr png"
    and "fst (ensureDir (cwd pr) (fsys w) (path_resolve (cwd pr) (OUTPUT_DIR pr))) = Inl e"
  shows "fst (renderOne L pr f w) = Inl e
    \<and> main_loop L pr (f # rest) (ok, fail, w) =
          main_loop L pr rest
            (ok, fail + 1, console_error (failure_line f e) (snd (renderOne L pr f w)))
    \<and> (fg L [INPUT_PATTERN pr] main_fg_options (cwd pr) (fsys w0) = Inr files \<longrightarrow>
          fst (script L pr w0) = 0)"
proof -
  have "fst (write_png pr f png (snd (to_png L pr f w))) = Inl e"
    using assms(2) by (auto simp: write_png_def Let_def split: prod.splits)
  then have failed: "fst (renderOne L pr f w) = Inl e"
    by (simp add: renderOne_to_png_ok [OF assms(1)])
  show ?thesis
    by (simp add: failed loop_body_failure [OF failed] script_exit_0)
qed

theorem mkdir_failure_is_per_file_witness:
  "fst (to_png demo_libs out_process ''/w/diagrams/a.mmd'' (demo_world blocked_out ms))
     = Inr ''PNG <svg>graph TD; A-->B</svg>''
   \<and> fst (ensureDir (cwd out_process) (fsys (demo_world blocked_out ms))
            (path_resolve (cwd out_process) (OUTPUT_DIR out_process)))
     = Inl (fs_error ''EEXIST'' ''mkdir'' ''/w/out'')
   \<and> fst (renderOne demo_libs out_process ''/w/diagrams/a.mmd'' (demo_world blocked_out ms))
     = Inl (fs_error ''EEXIST'' ''mkdir'' ''/w/out'')"
proof -
  have rasterised: "fst (to_png demo_libs out_process ''/w/diagrams/a.mmd'' (demo_world blocked_out ms))
      = Inr ''PNG <svg>graph TD; A-->B</svg>''"
    by (simp add: all_defs)
  have refused: "fst (ensureDir (cwd out_process) (fsys (demo_world blocked_out ms))
        (path_resolve (cwd out_process) (OUTPUT_DIR out_process)))
      = Inl (fs_error ''EEXIST'' ''mkdir'' ''/w/out'')"
    by (simp add: all_defs)
  from mkdir_failure_is_per_file [OF rasterised refused]
  have "fst (renderOne demo_libs out_process ''/w/diagrams/a.mmd'' (demo_world blocked_out ms))
      = Inl (fs_error ''EEXIST'' ''mkdir'' ''/w/out'')"
    by blast
  with rasterised refused show ?thesis by blast
qed

text \<open>
  C2, as stated, fails: with \<^verbatim>\<open>OUTPUT_DIR=out\<close> and a regular file \<^verbatim>\<open>/w/out\<close> the directory
  cannot be created, yet the run reports the file as failed and ends with exit status 0.
\<close>

theorem mkdir_failure_not_fatal:
  "fst (ensureDir ''/w'' blocked_out ''/w/out'') = Inl (fs_error ''EEXIST'' ''mkdir'' ''/w/out'')
   \<and> fst (script demo_libs out_process (demo_world blocked_out ms)) = 0
   \<and> map snd (console (snd (script demo_libs out_process (demo_world blocked_out ms)))) =
       [''Rendering 1 Mermaid file(s) to PNG (no browser)...'',
        cross_mark @ '' Failed: /w/diagrams/a.mmd'' @ [CHR 0x0A]
          @ ''Error: EEXIST: mkdir /w/out'',
        ''Done. Success: 0, Failed: 1'']"
  by (simp add: all_defs)

subsection \<open>No file matched\<close>

text \<open>
  C5. When the locator returns no file, the script prints the one line saying so, changes
  nothing else in the world (in particular the file system is as it was) and ends with
  exit status 0.
\<close>

theorem no_match_is_success:
  assumes "fg L [INPUT_PATTERN pr] main_fg_options (cwd pr) (fsys w) = Inr []"
  shows "script L pr w =
           (0, w\<lparr>console := console w
                  @ [(Stdout, ''No Mermaid files matched pattern: '' @ INPUT_PATTERN pr)]\<rparr>)
    \<and> fsys (snd (script L pr w)) = fsys w"
  using assms by (simp add: script_def main_def console_log_def)

theorem no_match_is_success_witness:
  "fg demo_libs [INPUT_PATTERN demo_process] main_fg_options (cwd demo_process)
      (fsys (demo_world no_sources ms)) = Inr []
   \<and> script demo_libs demo_process (demo_world no_sources ms) =
       (0, (demo_world no_sources ms)\<lparr>console := console (demo_world no_sources ms)
              @ [(Stdout, ''No Mermaid files matched pattern: '' @ INPUT_PATTERN demo_process)]\<rparr>)
   \<and> fsys (snd (script demo_libs demo_process (demo_world no_sources ms)))
       = fsys (demo_world no_sources ms)"
proof -
  have none: "fg demo_libs [INPUT_PATTERN demo_process] main_fg_options (cwd demo_process)
      (fsys (demo_world no_sources ms)) = Inr []"
    by (simp add: all_defs)
  from no_match_is_success [OF none] none show ?thesis by blast
qed

subsection \<open>The tally\<close>

lemma loop_body_counts:
  assumes "loop_body L pr f (ok, fail, w) = (ok', fail', w')"
  shows "ok' + fail' = ok + fail + 1"
  using assms by (auto simp: loop_body_def split: prod.splits sum.splits)

lemma main_loop_counts:
  "main_loop L pr files (ok, fail, w) = (ok', fail', w') \<Longrightarrow>
     ok' + fail' = ok + fail + length files"
proof (induction files arbitrary: ok fail w)
  case Nil
  then show ?case by simp
next
  case (Cons f files)
  obtain ok1 fail1 w1 where step: "loop_body L pr f (ok, fail, w) = (ok1, fail1, w1)"
    by (cases "loop_body L pr f (ok, fail, w)") auto
  with Cons.prems have "main_loop L pr files (ok1, fail1, w1) = (ok', fail', w')"
    by simp
  from Cons.IH [OF this] loop_body_counts [OF step] show ?case by simp
qed

text \<open>
  C7. One pass of the loop adds one to exactly one of the two counters. When the locator
  has returned at least one file, the counters after the loop add up to the number of
  files, and the script ends by printing the summary line with both of them.
\<close>

theorem tally_adds_up:
  "((\<exists>w'. loop_body L pr f (ok, fail, w) = (ok + 1, fail, w')) \<or>
    (\<exists>w'. loop_body L pr f (ok, fail, w) = (ok, fail + 1, w')))
   \<and> (fg L [INPUT_PATTERN pr] main_fg_options (cwd pr) (fsys w0) = Inr files \<and> files \<noteq> [] \<longrightarrow>
        (\<exists>ok' fail' w'.
           main_loop L pr files
             (0, 0, console_log (''Rendering '' @ dec (length files)
                      @ '' Mermaid file(s) to PNG (no browser)...'') w0) = (ok', fail', w')
           \<and> ok' + fail' = length files
           \<and> script L pr w0 =
               (0, w'\<lparr>console := console w'
                      @ [(Stdout, ''Done. Success: '' @ dec ok' @ '', Failed: '' @ dec fail')]\<rparr>)))"
proof (intro conjI impI)
  show "(\<exists>w'. loop_body L pr f (ok, fail, w) = (ok + 1, fail, w')) \<or>
        (\<exists>w'. loop_body L pr f (ok, fail, w) = (ok, fail + 1, w'))"
    by (auto simp: loop_body_def split: prod.splits sum.splits)
next
  let ?w1 = "console_log (''Rendering '' @ dec (length files)
                @ '' Mermaid file(s) to PNG (no browser)...'') w0"
  assume located: "fg L [INPUT_PATTERN pr] main_fg_options (cwd pr) (fsys w0) = Inr files \<and> files \<noteq> []"
  obtain ok' fail' w' where run: "main_loop L pr files (0, 0, ?w1) = (ok', fail', w')"
    by (cases "main_loop L pr files (0, 0, ?w1)") auto
  from main_loop_counts [OF run] have total: "ok' + fail' = length files"
    by simp
  from located run have "script L pr w0 =
      (0, w'\<lparr>console := console w'
             @ [(Stdout, ''Done. Success: '' @ dec ok' @ '', Failed: '' @ dec fail')]\<rparr>)"
    by (simp add: script_def main_def console_log_def summary_line_def)
  with run total show "\<exists>ok' fail' w'.
      main_loop L pr files (0, 0, ?w1) = (ok', fail', w')
      \<and> ok' + fail' = length files
      \<and> script L pr w0 =
          (0, w'\<lparr>console := console w'
                 @ [(Stdout, ''Done. Success: '' @ dec ok' @ '', Failed: '' @ dec fail')]\<rparr>)"
    by blast
qed

theorem tally_adds_up_witness:
  "fg demo_libs [INPUT_PATTERN demo_process] main_fg_options (cwd demo_process)
      (fsys (demo_world two_files ms)) = Inr [''/w/diagrams/a.mmd'', ''/w/diagrams/b.mmd'']
   \<and> script demo_libs demo_process (demo_world two_files ms) =
       (0, (snd (snd (main_loop demo_libs demo_process [''/w/diagrams/a.mmd'', ''/w/diagrams/b.mmd'']
              (0, 0, console_log ''Rendering 2 Mermaid file(s) to PNG (no browser)...''
                 (demo_world two_files ms)))))
           \<lparr>console := console (snd (snd (main_loop demo_libs demo_process
                 [''/w/diagrams/a.mmd'', ''/w/diagrams/b.mmd'']
                 (0, 0, console_log ''Rendering 2 Mermaid file(s) to PNG (no browser)...''
                    (demo_world two_files ms)))))
               @ [(Stdout, ''Done. Success: 1, Failed: 1'')]\<rparr>)"
proof -
  let ?files = "[''/w/diagrams/a.mmd'', ''/w/diagrams/b.mmd'']"
  let ?w1 = "console_log ''Rendering 2 Mermaid file(s) to PNG (no browser)...''
               (demo_world two_files ms)"
  have located: "fg demo_libs [INPUT_PATTERN demo_process] main_fg_options (cwd demo_process)
      (fsys (demo_world two_files ms)) = Inr ?files"
    by (simp add: all_defs)
  have rendering: "''Rendering '' @ dec (length ?files) @ '' Mermaid file(s) to PNG (no browser)...''
      = ''Rendering 2 Mermaid file(s) to PNG (no browser)...''"
    by (simp add: str_defs)
  have counts: "fst (main_loop demo_libs demo_process ?files (0, 0, ?w1)) = 1"
    "fst (snd (main_loop demo_libs demo_process ?files (0, 0, ?w1))) = 1"
    by (simp_all add: all_defs)
  have one: "dec 1 = ''1''"
    by (simp add: str_defs)
  from tally_adds_up [where L = demo_libs and pr = demo_process and ?w0.0 = "demo_world two_files ms"
      and files = ?files] located
  obtain ok' fail' w' where
    run: "main_loop demo_libs demo_process ?files (0, 0, ?w1) = (ok', fail', w')"
    and exit: "script demo_libs demo_process (demo_world two_files ms) =
      (0, w'\<lparr>console := console w'
             @ [(Stdout, ''Done. Success: '' @ dec ok' @ '', Failed: '' @ dec fail')]\<rparr>)"
    unfolding rendering by blast
  from run counts have "ok' = 1" "fail' = 1" "w' = snd (snd (main_loop demo_libs demo_process ?files (0, 0, ?w1)))"
    by simp_all
  with exit one located show ?thesis by simp
qed

subsection \<open>A file that is not rasterised\<close>


lemma failed_file_step:
  assumes "fst (to_png L pr f w) = Inl e"
  shows "main_loop L pr (f # rest) (ok, fail, w) =
           main_loop L pr rest (ok, fail + 1, console_error (failure_line f e) (snd (to_png L pr f w)))"
  by (simp add: loop_body_def renderOne_to_png_fails [OF assms])

subsection \<open>When the output directory is created\<close>

lemma node_at_parent:
  assumes "wf_fs fs" and "node_at fs k \<noteq> None" and "k \<noteq> []"
  shows "node_at fs (butlast k) = Some Dir"
proof -
  from assms(2,3) obtain n where "map_of fs k = Some n"
    by (auto simp: node_at_def)
  then have "(k, n) \<in> set fs"
    by (rule map_of_SomeD)
  with assms(1) show ?thesis
    by (auto simp: wf_fs_def list_all_iff)
qed

lemma node_at_ancestor:
  "wf_fs fs \<Longrightarrow> node_at fs (k @ ss) \<noteq> None \<Longrightarrow> ss \<noteq> [] \<Longrightarrow> node_at fs k = Some Dir"
proof (induction ss rule: rev_induct)
  case Nil
  then show ?case by simp
next
  case (snoc s ss)
  from node_at_parent [OF snoc.prems(1), of "k @ ss @ [s]"] snoc.prems(2)
  have up: "node_at fs (k @ ss) = Some Dir"
    by (simp add: butlast_append)
  show ?case
  proof (cases "ss = []")
    case True
    with up show ?thesis by simp
  next
    case False
    with snoc.IH [OF snoc.prems(1)] up show ?thesis by simp
  qed
qed

lemma mkdirs_existing:
  "wf_fs fs \<Longrightarrow> node_at fs (d @ ss) = Some Dir \<Longrightarrow> mkdirs fs d ss = (Inr (), fs)"
proof (induction ss arbitrary: d)
  case Nil
  then show ?case by simp
next
  case (Cons s ss)
  have here: "node_at fs (d @ [s]) = Some Dir"
  proof (cases "ss = []")
    case True
    with Cons.prems(2) show ?thesis by simp
  next
    case False
    from node_at_ancestor [OF Cons.prems(1), of "d @ [s]" ss] Cons.prems(2) False
    show ?thesis by simp
  qed
  from Cons.IH [OF Cons.prems(1), of "d @ [s]"] Cons.prems(2)
  have "mkdirs fs (d @ [s]) ss = (Inr (), fs)"
    by simp
  with here show ?case by simp
qed

lemma main_loop_never_rasterised:
  "\<forall>f \<in> set files. \<forall>w'. fsys w' = fsys w \<longrightarrow> (\<exists>e. fst (to_png L pr f w') = Inl e) \<Longrightarrow>
     fsys (snd (snd (main_loop L pr files (ok, fail, w)))) = fsys w"
proof (induction files arbitrary: ok fail w)
  case Nil
  then show ?case by simp
next
  case (Cons f files)
  from Cons.prems obtain e where failed: "fst (to_png L pr f w) = Inl e"
    by auto
  let ?w1 = "console_error (failure_line f e) (snd (to_png L pr f w))"
  have same: "fsys ?w1 = fsys w"
    by (simp add: console_error_def)
  with Cons.prems
  have "\<forall>g \<in> set files. \<forall>w'. fsys w' = fsys ?w1 \<longrightarrow> (\<exists>e. fst (to_png L pr g w') = Inl e)"
    by simp
  from Cons.IH [OF this] same failed_file_step [OF failed] show ?case
    by simp
qed

lemma write_png_fsys:
  "fsys (snd (write_png pr f png w)) =
     (case ensureDir (cwd pr) (fsys w) (path_resolve (cwd pr) (OUTPUT_DIR pr)) of
        (Inl e, fs1) \<Rightarrow> fs1
      | (Inr u, fs1) \<Rightarrow>
          (case writeFile (cwd pr) fs1 (out_path pr f) png of Inl e \<Rightarrow> fs1 | Inr fs2 \<Rightarrow> fs2))"
  by (simp add: write_png_def out_path_def out_name_def Let_def split: sum.splits prod.splits)

text \<open>
  C10. The output directory is created by \<open>renderOne\<close>, for each file, once its source has
  been rasterised: then the file system after \<open>renderOne\<close> is the one \<open>ensureDir\<close> leaves,
  with the PNG written into it if both steps succeed. A file that is not rasterised leaves
  the file system alone, so a run in which no file is rasterised ends with the file
  system it started with, output directory included. On a well-formed file system an
  output directory that exists already makes \<open>ensureDir\<close> succeed and change nothing.
\<close>

theorem output_directory_is_lazy:
  "(fst (to_png L pr f w) = Inr png \<longrightarrow>
      fsys (snd (renderOne L pr f w)) =
        (case ensureDir (cwd pr) (fsys w) (path_resolve (cwd pr) (OUTPUT_DIR pr)) of
           (Inl e, fs1) \<Rightarrow> fs1
         | (Inr u, fs1) \<Rightarrow>
             (case writeFile (cwd pr) fs1 (out_path pr f) png of Inl e \<Rightarrow> fs1 | Inr fs2 \<Rightarrow> fs2)))
   \<and> (fst (to_png L pr f' w') = Inl e \<longrightarrow> fsys (snd (renderOne L pr f' w')) = fsys w')
   \<and> ((\<forall>g \<in> set files. \<forall>w'. fsys w' = fsys w0 \<longrightarrow> (\<exists>e. fst (to_png L pr g w') = Inl e)) \<longrightarrow>
        fsys (snd (snd (main_loop L pr files (ok, fail, w0)))) = fsys w0)
   \<and> (wf_fs fs \<and> node_at fs (resolved_segs wd p) = Some Dir \<longrightarrow>
        ensureDir wd fs p = (Inr (), fs))"
proof (intro conjI impI)
  assume "fst (to_png L pr f w) = Inr png"
  then show "fsys (snd (renderOne L pr f w)) =
        (case ensureDir (cwd pr) (fsys w) (path_resolve (cwd pr) (OUTPUT_DIR pr)) of
           (Inl e, fs1) \<Rightarrow> fs1
         | (Inr u, fs1) \<Rightarrow>
             (case writeFile (cwd pr) fs1 (out_path pr f) png of Inl e \<Rightarrow> fs1 | Inr fs2 \<Rightarrow> fs2))"
    by (simp add: renderOne_to_png_ok write_png_fsys)
next
  assume "fst (to_png L pr f' w') = Inl e"
  then show "fsys (snd (renderOne L pr f' w')) = fsys w'"
    by (simp add: renderOne_to_png_fails)
next
  assume "\<forall>g \<in> set files. \<forall>w'. fsys w' = fsys w0 \<longrightarrow> (\<exists>e. fst (to_png L pr g w') = Inl e)"
  then show "fsys (snd (snd (main_loop L pr files (ok, fail, w0)))) = fsys w0"
    by (rule main_loop_never_rasterised)
next
  assume "wf_fs fs \<and> node_at fs (resolved_segs wd p) = Some Dir"
  then show "ensureDir wd fs p = (Inr (), fs)"
    using mkdirs_existing [of fs "[]" "resolved_segs wd p"]
    by (simp add: ensureDir_def mkdir_recursive_def)
qed

theorem output_directory_is_lazy_witness:
  "fst (to_png demo_libs out_process ''/w/diagrams/a.mmd'' (demo_world two_files ms))
     = Inr ''PNG <svg>graph TD; A-->B</svg>''
   \<and> fsys (snd (renderOne demo_libs out_process ''/w/diagrams/a.mmd'' (demo_world two_files ms)))
     = ([''w'', ''out'', ''a.png''], File ''PNG <svg>graph TD; A-->B</svg>'')
       # ([''w'', ''out''], Dir) # two_files
   \<and> fst (to_png demo_libs out_process ''/w/diagrams/b.mmd'' (demo_world two_files ms))
     = Inl (Error ''Parse error on line 1'' [])
   \<and> fsys (snd (renderOne demo_libs out_process ''/w/diagrams/b.mmd'' (demo_world two_files ms)))
     = fsys (demo_world two_files ms)
   \<and> fsys (snd (snd (main_loop demo_libs out_process [''/w/diagrams/b.mmd'']
         (0, 0, demo_world only_bad ms)))) = fsys (demo_world only_bad ms)
   \<and> wf_fs two_files \<and> node_at two_files (resolved_segs ''/w'' ''diagrams'') = Some Dir
   \<and> ensureDir ''/w'' two_files ''diagrams'' = (Inr (), two_files)"
proof -
  let ?w = "demo_world two_files ms"
  let ?bad = "demo_world only_bad ms"
  have ok_a: "fst (to_png demo_libs out_process ''/w/diagrams/a.mmd'' ?w)
      = Inr ''PNG <svg>graph TD; A-->B</svg>''"
    by (simp add: all_defs)
  have bad_b: "fst (to_png demo_libs out_process ''/w/diagrams/b.mmd'' ?w)
      = Inl (Error ''Parse error on line 1'' [])"
    by (simp add: all_defs)
  have never: "\<forall>g \<in> set [''/w/diagrams/b.mmd'']. \<forall>w'. fsys w' = fsys ?bad \<longrightarrow>
      (\<exists>e. fst (to_png demo_libs out_process g w') = Inl e)"
    by (simp add: all_defs)
  have there: "wf_fs two_files \<and> node_at two_files (resolved_segs ''/w'' ''diagrams'') = Some Dir"
    by (simp add: all_defs)
  note lazy = output_directory_is_lazy
    [where L = demo_libs and pr = out_process and f = "''/w/diagrams/a.mmd''" and w = ?w
       and png = "''PNG <svg>graph TD; A-->B</svg>''"
       and f' = "''/w/diagrams/b.mmd''" and w' = ?w and e = "Error ''Parse error on line 1'' []"
       and files = "[''/w/diagrams/b.mmd'']" and ?w0.0 = ?bad and ok = 0 and fail = 0
       and fs = two_files and wd = "''/w''" and p = "''diagrams''"]
  from lazy ok_a have "fsys (snd (renderOne demo_libs out_process ''/w/diagrams/a.mmd'' ?w)) =
      (case ensureDir (cwd out_process) (fsys ?w) (path_resolve (cwd out_process) (OUTPUT_DIR out_process)) of
         (Inl e, fs1) \<Rightarrow> fs1
       | (Inr u, fs1) \<Rightarrow>
           (case writeFile (cwd out_process) fs1 (out_path out_process ''/w/diagrams/a.mmd'')
                   ''PNG <svg>graph TD; A-->B</svg>'' of Inl e \<Rightarrow> fs1 | Inr fs2 \<Rightarrow> fs2))"
    by blast
  also have "\<dots> = ([''w'', ''out'', ''a.png''], File ''PNG <svg>graph TD; A-->B</svg>'')
       # ([''w'', ''out''], Dir) # two_files"
    by (simp add: all_defs)
  finally have created: "fsys (snd (renderOne demo_libs out_process ''/w/diagrams/a.mmd'' ?w))
     = ([''w'', ''out'', ''a.png''], File ''PNG <svg>graph TD; A-->B</svg>'')
       # ([''w'', ''out''], Dir) # two_files" .
  from lazy bad_b
  have untouched: "fsys (snd (renderOne demo_libs out_process ''/w/diagrams/b.mmd'' ?w)) = fsys ?w"
    by blast
  from lazy never
  have run: "fsys (snd (snd (main_loop demo_libs out_process [''/w/diagrams/b.mmd''] (0, 0, ?bad))))
      = fsys ?bad"
    by blast
  from lazy there have again: "ensureDir ''/w'' two_files ''diagrams'' = (Inr (), two_files)"
    by blast
  from ok_a created bad_b untouched run there again show ?thesis
    by blast
qed

subsection \<open>Where the PNG goes\<close>

lemma ends_with_ci_tail:
  assumes "length e \<le> length ext"
  shows "ends_with_ci e (stem @ ext) \<longleftrightarrow> map lower (drop (length ext - length e) ext) = map lower e"
  using assms by (simp add: ends_with_ci_def)

lemma ends_with_ci_longer:
  assumes "ends_with_ci e (stem @ ext)" and "length ext \<le> length e"
  shows "map lower ext = drop (length e - length ext) (map lower e)"
proof -
  from assms have len: "length e \<le> length stem + length ext"
    and eq: "map lower (drop (length stem + length ext - length e) (stem @ ext)) = map lower e"
    by (simp_all add: ends_with_ci_def)
  from assms(2) len have "drop (length stem + length ext - length e) (stem @ ext)
      = drop (length stem + length ext - length e) stem @ ext"
    by simp
  with eq have "map lower (drop (length stem + length ext - length e) stem) @ map lower ext = map lower e"
    by simp
  from arg_cong [OF this, of "drop (length e - length ext)"] assms(2) len show ?thesis
    by simp
qed

lemma lower_exts:
  "lower CHR ''.'' = CHR ''.''" "lower CHR ''m'' = CHR ''m''" "lower CHR ''d'' = CHR ''d''"
  "lower CHR ''e'' = CHR ''e''" "lower CHR ''r'' = CHR ''r''" "lower CHR ''a'' = CHR ''a''"
  "lower CHR ''i'' = CHR ''i''" "lower CHR ''t'' = CHR ''t''" "lower CHR ''x'' = CHR ''x''"
  by (simp_all add: lower_def)

lemma replace_source_ext_known:
  assumes "map lower ext \<in> set source_exts"
  shows "replace_source_ext (stem @ ext) = stem @ ''.png''"
proof -
  from assms consider "map lower ext = ''.mmd''" | "map lower ext = ''.mermaid''" | "map lower ext = ''.txt''"
    by (auto simp: source_exts_def)
  then show ?thesis
  proof cases
    case 1
    from arg_cong [OF 1, of length] have len: "length ext = 4"
      by simp
    with 1 have "ends_with_ci ''.mmd'' (stem @ ext)"
      by (simp add: ends_with_ci_tail lower_exts)
    with len show ?thesis
      by (simp add: replace_source_ext_def source_exts_def)
  next
    case 2
    from arg_cong [OF 2, of length] have len: "length ext = 8"
      by simp
    from 2 have "map lower (drop 4 ext) = ''maid''"
      by (simp add: drop_map [symmetric])
    with len have no_mmd: "\<not> ends_with_ci ''.mmd'' (stem @ ext)"
      by (simp add: ends_with_ci_tail lower_exts)
    from 2 len have "ends_with_ci ''.mermaid'' (stem @ ext)"
      by (simp add: ends_with_ci_tail lower_exts)
    with no_mmd len show ?thesis
      by (simp add: replace_source_ext_def source_exts_def)
  next
    case 3
    from arg_cong [OF 3, of length] have len: "length ext = 4"
      by simp
    with 3 have no_mmd: "\<not> ends_with_ci ''.mmd'' (stem @ ext)"
      by (simp add: ends_with_ci_tail lower_exts)
    have no_mermaid: "\<not> ends_with_ci ''.mermaid'' (stem @ ext)"
    proof
      assume "ends_with_ci ''.mermaid'' (stem @ ext)"
      from ends_with_ci_longer [OF this] len 3 show False
        by (simp add: lower_exts)
    qed
    from 3 len have "ends_with_ci ''.txt'' (stem @ ext)"
      by (simp add: ends_with_ci_tail lower_exts)
    with no_mmd no_mermaid len show ?thesis
      by (simp add: replace_source_ext_def source_exts_def)
  qed
qed

lemma out_path_flat: "path_basename f = path_basename g \<Longrightarrow> out_path pr f = out_path pr g"
  by (simp add: out_path_def out_name_def)

lemma node_at_fs_put: "k \<noteq> [] \<Longrightarrow> node_at (fs_put k n fs) k = Some n"
  by (simp add: node_at_def fs_put_def)

lemma writeFile_written:
  assumes "writeFile wd fs p data = Inr fs2"
  shows "node_at fs2 (resolved_segs wd p) = Some (File data)"
proof -
  from assms have "resolved_segs wd p \<noteq> []"
    by (auto simp: writeFile_def Let_def node_at_def split: option.splits node.splits if_splits)
  moreover from assms have "fs2 = fs_put (resolved_segs wd p) (File data) fs"
    by (auto simp: writeFile_def Let_def split: option.splits node.splits)
  ultimately show ?thesis
    by (simp add: node_at_fs_put)
qed

lemma renderOne_success:
  assumes "fst (renderOne L pr f w) = Inr out"
  shows "out = out_path pr f \<and>
    (\<exists>png. fst (to_png L pr f w) = Inr png
       \<and> node_at (fsys (snd (renderOne L pr f w))) (resolved_segs (cwd pr) out) = Some (File png))"
proof -
  from assms obtain png where png: "fst (to_png L pr f w) = Inr png"
    by (cases "to_png L pr f w"; cases "fst (to_png L pr f w)") (auto simp: renderOne_halves)
  let ?w2 = "snd (to_png L pr f w)"
  from assms have wr: "fst (write_png pr f png ?w2) = Inr out"
    by (simp add: renderOne_to_png_ok [OF png])
  obtain m fs1 where mk: "ensureDir (cwd pr) (fsys w) (path_resolve (cwd pr) (OUTPUT_DIR pr)) = (m, fs1)"
    by (cases "ensureDir (cwd pr) (fsys w) (path_resolve (cwd pr) (OUTPUT_DIR pr))") auto
  from wr mk obtain fs2 where
    w: "writeFile (cwd pr) fs1 (out_path pr f) png = Inr fs2"
    and o: "out = out_path pr f"
    and r: "write_png pr f png ?w2 = (Inr out, ?w2\<lparr>fsys := fs2\<rparr>)"
    by (auto simp: write_png_def out_path_def out_name_def Let_def split: sum.splits)
  from writeFile_written [OF w] o r png show ?thesis
    by (simp add: renderOne_to_png_ok [OF png])
qed

text \<open>
  C3, as the script has it. A file that \<open>renderOne\<close> converts is written to the resolved
  output directory joined with a name computed from the basename of the input alone, and
  after the call that path holds the PNG, whatever was there before. For a basename that
  ends in \<^verbatim>\<open>.mmd\<close>, \<^verbatim>\<open>.mermaid\<close> or \<^verbatim>\<open>.txt\<close>, in any letter case, the name is the basename with
  that extension replaced by \<^verbatim>\<open>.png\<close>. Two inputs with the same basename have the same
  output path, whatever their directories.
\<close>

theorem output_path_rule:
  "(fst (renderOne L pr f w) = Inr out \<longrightarrow>
      out = path_join (path_resolve (cwd pr) (OUTPUT_DIR pr)) (replace_source_ext (path_basename f))
      \<and> (\<exists>png. fst (to_png L pr f w) = Inr png
            \<and> node_at (fsys (snd (renderOne L pr f w))) (resolved_segs (cwd pr) out)
                = Some (File png)))
   \<and> (path_basename f = stem @ ext \<and> map lower ext \<in> set source_exts \<longrightarrow>
        replace_source_ext (path_basename f) = stem @ ''.png'')
   \<and> (path_basename f = path_basename g \<longrightarrow> out_path pr f = out_path pr g)"
proof (intro conjI impI)
  assume "fst (renderOne L pr f w) = Inr out"
  from renderOne_success [OF this]
  show "out = path_join (path_resolve (cwd pr) (OUTPUT_DIR pr)) (replace_source_ext (path_basename f))"
    by (simp add: out_path_def out_name_def)
next
  assume "fst (renderOne L pr f w) = Inr out"
  from renderOne_success [OF this]
  show "\<exists>png. fst (to_png L pr f w) = Inr png
            \<and> node_at (fsys (snd (renderOne L pr f w))) (resolved_segs (cwd pr) out)
                = Some (File png)"
    by blast
next
  assume "path_basename f = stem @ ext \<and> map lower ext \<in> set source_exts"
  then show "replace_source_ext (path_basename f) = stem @ ''.png''"
    by (simp add: replace_source_ext_known)
next
  assume "path_basename f = path_basename g"
  then show "out_path pr f = out_path pr g"
    by (rule out_path_flat)
qed

theorem output_path_rule_witness:
  "fst (renderOne demo_libs demo_process ''/w/diagrams/a.mmd'' (demo_world two_files ms))
     = Inr ''/w/diagrams/a.png''
   \<and> ''/w/diagrams/a.png'' = path_join (path_resolve (cwd demo_process) (OUTPUT_DIR demo_process))
        (replace_source_ext (path_basename ''/w/diagrams/a.mmd''))
   \<and> (\<exists>png. fst (to_png demo_libs demo_process ''/w/diagrams/a.mmd'' (demo_world two_files ms)) = Inr png
         \<and> node_at (fsys (snd (renderOne demo_libs demo_process ''/w/diagrams/a.mmd''
                 (demo_world two_files ms))))
               (resolved_segs (cwd demo_process) ''/w/diagrams/a.png'') = Some (File png))
   \<and> path_basename ''/w/diagrams/a.mmd'' = ''a'' @ ''.mmd''
   \<and> map lower ''.mmd'' \<in> set source_exts
   \<and> replace_source_ext (path_basename ''/w/diagrams/a.mmd'') = ''a'' @ ''.png''
   \<and> path_basename ''/w/diagrams/a.mmd'' = path_basename ''/w/other/sub/a.mmd''
   \<and> out_path demo_process ''/w/diagrams/a.mmd'' = out_path demo_process ''/w/other/sub/a.mmd''"
proof -
  have converted: "fst (renderOne demo_libs demo_process ''/w/diagrams/a.mmd'' (demo_world two_files ms))
      = Inr ''/w/diagrams/a.png''"
    by (simp add: all_defs)
  have known: "path_basename ''/w/diagrams/a.mmd'' = ''a'' @ ''.mmd'' \<and> map lower ''.mmd'' \<in> set source_exts"
    by (simp add: str_defs)
  have same: "path_basename ''/w/diagrams/a.mmd'' = path_basename ''/w/other/sub/a.mmd''"
    by (simp add: str_defs)
  from output_path_rule [where L = demo_libs and pr = demo_process and f = "''/w/diagrams/a.mmd''"
      and w = "demo_world two_files ms" and out = "''/w/diagrams/a.png''" and stem = "''a''"
      and ext = "''.mmd''" and g = "''/w/other/sub/a.mmd''"]
    converted known same
  show ?thesis by blast
qed

text \<open>
  C3, as stated, fails: the pattern \<^verbatim>\<open>notes/*.md\<close> selects \<^verbatim>\<open>/w/notes/a.md\<close>, whose extension
  is none of the three the script replaces. The PNG goes to \<^verbatim>\<open>/w/diagrams/a.md\<close>, not to the
  output directory joined with the basename with its extension replaced by \<^verbatim>\<open>.png\<close>.
\<close>

theorem other_extension_kept:
  "fg demo_libs [INPUT_PATTERN notes_process] main_fg_options (cwd notes_process) md_notes
     = Inr [''/w/notes/a.md'']
   \<and> fst (renderOne demo_libs notes_process ''/w/notes/a.md'' (demo_world md_notes ms))
     = Inr ''/w/diagrams/a.md''
   \<and> path_join (path_resolve (cwd notes_process) (OUTPUT_DIR notes_process))
        (spec_out_name (path_basename ''/w/notes/a.md'')) = ''/w/diagrams/a.png''"
  by (simp add: all_defs spec_out_name_def)

subsection \<open>Diagram identifiers\<close>

lemma digit_char_inj: "a < 10 \<Longrightarrow> b < 10 \<Longrightarrow> digit_char a = digit_char b \<Longrightarrow> a = b"
  using nth_eq_iff_index_eq [of "''0123456789''" a b] by (simp add: digit_char_def)

lemma digit_char_in: "d < 10 \<Longrightarrow> digit_char d \<in> set ''0123456789''"
  unfolding digit_char_def by (rule nth_mem) simp

lemma dec_digits: "set (dec n) \<subseteq> set ''0123456789''"
proof (induction n rule: dec.induct)
  case (1 n)
  show ?case
  proof (cases "n < 10")
    case True
    then show ?thesis using digit_char_in [of n] by (simp add: dec.simps)
  next
    case False
    have "n mod 10 < 10" by simp
    from digit_char_in [OF this] 1 [OF False] False show ?thesis
      by (subst dec.simps) simp
  qed
qed

lemma dec_nonempty: "dec n \<noteq> []"
  by (subst dec.simps) simp

lemma dec_inj: "dec m = dec n \<Longrightarrow> m = n"
proof (induction m arbitrary: n rule: dec.induct)
  case (1 m)
  show ?case
  proof (cases "m < 10")
    case small_m: True
    show ?thesis
    proof (cases "n < 10")
      case True
      with small_m "1.prems" show ?thesis
        by (simp add: dec.simps [of m] dec.simps [of n] digit_char_inj)
    next
      case False
      with small_m "1.prems" dec_nonempty [of "n div 10"] show ?thesis
        by (simp add: dec.simps [of m] dec.simps [of n])
    qed
  next
    case big_m: False
    show ?thesis
    proof (cases "n < 10")
      case True
      with big_m "1.prems" dec_nonempty [of "m div 10"] show ?thesis
        by (simp add: dec.simps [of m] dec.simps [of n])
    next
      case False
      with big_m "1.prems" have "dec (m div 10) = dec (n div 10)"
        and "digit_char (m mod 10) = digit_char (n mod 10)"
        by (simp_all add: dec.simps [of m] dec.simps [of n])
      with "1.IH" [OF big_m] have "m div 10 = n div 10" "m mod 10 = n mod 10"
        by (simp_all add: digit_char_inj)
      then show ?thesis
        by (metis div_mult_mod_eq)
    qed
  qed
qed

lemma takeWhile_until: "x \<notin> set xs \<Longrightarrow> takeWhile (\<lambda>c. c \<noteq> x) (xs @ x # r) = xs"
  by (induction xs) auto

lemma split_at_last_underscore:
  assumes "CHR ''_'' \<notin> set d1" "CHR ''_'' \<notin> set d2" "s1 @ CHR ''_'' # d1 = s2 @ CHR ''_'' # d2"
  shows "s1 = s2 \<and> d1 = d2"
proof -
  have cut: "takeWhile (\<lambda>c. c \<noteq> CHR ''_'') (rev d @ CHR ''_'' # r) = rev d"
    if "CHR ''_'' \<notin> set d" for d r
    using that by (intro takeWhile_until) simp
  from assms(3) have "rev (s1 @ CHR ''_'' # d1) = rev (s2 @ CHR ''_'' # d2)"
    by simp
  then have eq: "rev d1 @ CHR ''_'' # rev s1 = rev d2 @ CHR ''_'' # rev s2"
    by simp
  from arg_cong [OF eq, of "takeWhile (\<lambda>c. c \<noteq> CHR ''_'')"] cut [OF assms(1)] cut [OF assms(2)]
  have "d1 = d2" by simp
  with assms(3) show ?thesis by simp
qed

lemma diagram_id_eq_iff:
  "diagram_id f t = diagram_id g u \<longleftrightarrow>
     replace_nonword (path_basename f) = replace_nonword (path_basename g) \<and> t = u"
proof
  assume "diagram_id f t = diagram_id g u"
  then have "replace_nonword (path_basename f) @ CHR ''_'' # dec t
      = replace_nonword (path_basename g) @ CHR ''_'' # dec u"
    by (simp add: diagram_id_def)
  moreover have "CHR ''_'' \<notin> set (dec t)" "CHR ''_'' \<notin> set (dec u)"
    using dec_digits [of t] dec_digits [of u] by auto
  ultimately have "replace_nonword (path_basename f) = replace_nonword (path_basename g) \<and> dec t = dec u"
    by (intro split_at_last_underscore)
  then show "replace_nonword (path_basename f) = replace_nonword (path_basename g) \<and> t = u"
    by (auto dest: dec_inj)
next
  assume "replace_nonword (path_basename f) = replace_nonword (path_basename g) \<and> t = u"
  then show "diagram_id f t = diagram_id g u"
    by (simp add: diagram_id_def)
qed

lemma renderOne_renders_once:
  assumes "readFile (cwd pr) (fsys w) f = Inr src"
  shows "document (snd (renderOne L pr f w)) =
           snd (mermaid_render L (mermaid_initialize pr) (document w)
                  (diagram_id f (clock w (tick w))) src)
    \<and> tick (snd (renderOne L pr f w)) = Suc (tick w)
    \<and> clock (snd (renderOne L pr f w)) = clock w"
  using assms
  by (simp add: renderOne_def Date_now_def Let_def split: sum.splits prod.splits)

text \<open>
  C4, as the script has it. The identifier of an invocation is \<^verbatim>\<open>mmd_\<close>, the basename with
  every run of non-word characters replaced by an underscore, an underscore, and the
  reading of the clock in decimal. Two identifiers are equal exactly when those names are
  equal and the readings are equal. An invocation of \<open>renderOne\<close> whose source can be read
  calls the renderer once, with the identifier made from the next reading of the clock,
  and leaves the following reading to the next invocation.
\<close>

theorem diagram_id_unique_up_to_clock:
  "(diagram_id f t = diagram_id g u \<longleftrightarrow>
      replace_nonword (path_basename f) = replace_nonword (path_basename g) \<and> t = u)
   \<and> (readFile (cwd pr) (fsys w) f = Inr src \<longrightarrow>
        document (snd (renderOne L pr f w)) =
          snd (mermaid_render L (mermaid_initialize pr) (document w)
                 (diagram_id f (clock w (tick w))) src)
        \<and> tick (snd (renderOne L pr f w)) = Suc (tick w)
        \<and> clock (snd (renderOne L pr f w)) = clock w)"
  using diagram_id_eq_iff [of f t g u] renderOne_renders_once [of pr w f src L]
  by blast

theorem diagram_id_unique_up_to_clock_witness:
  "readFile (cwd demo_process) (fsys (demo_world same_names ms)) ''/w/diagrams/a/x.mmd''
     = Inr ''grph TD; A--''
   \<and> document (snd (renderOne demo_libs demo_process ''/w/diagrams/a/x.mmd''
         (demo_world same_names ms))) = [''mmd_x_mmd_1700000000000'']
   \<and> tick (snd (renderOne demo_libs demo_process ''/w/diagrams/a/x.mmd''
         (demo_world same_names ms))) = Suc 0
   \<and> diagram_id ''/w/diagrams/a/x.mmd'' (ms 0) \<noteq> diagram_id ''/w/diagrams/b/x.mmd'' (ms 1)"
proof -
  let ?w = "demo_world same_names ms"
  have src: "readFile (cwd demo_process) (fsys ?w) ''/w/diagrams/a/x.mmd'' = Inr ''grph TD; A--''"
    by (simp add: all_defs)
  note unique = diagram_id_unique_up_to_clock
    [where f = "''/w/diagrams/a/x.mmd''" and t = "ms 0" and g = "''/w/diagrams/b/x.mmd''"
       and u = "ms 1" and pr = demo_process and w = ?w and src = "''grph TD; A--''"
       and L = demo_libs]
  from unique src
  have ticked: "tick (snd (renderOne demo_libs demo_process ''/w/diagrams/a/x.mmd'' ?w)) = Suc (tick ?w)"
    by blast
  from unique src
  have "document (snd (renderOne demo_libs demo_process ''/w/diagrams/a/x.mmd'' ?w)) =
      snd (mermaid_render demo_libs (mermaid_initialize demo_process) (document ?w)
             (diagram_id ''/w/diagrams/a/x.mmd'' (clock ?w (tick ?w))) ''grph TD; A--'')"
    by blast
  also have "snd (mermaid_render demo_libs (mermaid_initialize demo_process) (document ?w)
             (diagram_id ''/w/diagrams/a/x.mmd'' (clock ?w (tick ?w))) ''grph TD; A--'')
      = [''mmd_x_mmd_1700000000000'']"
    by (simp add: all_defs)
  finally have passed: "document (snd (renderOne demo_libs demo_process ''/w/diagrams/a/x.mmd'' ?w))
      = [''mmd_x_mmd_1700000000000'']" .
  have "ms 0 \<noteq> ms 1"
    by (simp add: ms_def)
  with unique have differ: "diagram_id ''/w/diagrams/a/x.mmd'' (ms 0) \<noteq> diagram_id ''/w/diagrams/b/x.mmd'' (ms 1)"
    by blast
  from ticked have "tick (snd (renderOne demo_libs demo_process ''/w/diagrams/a/x.mmd'' ?w)) = Suc 0"
    by (simp add: demo_world_def)
  with src passed differ show ?thesis by blast
qed

text \<open>
  C4, as stated, fails: two sources named \<^verbatim>\<open>x.mmd\<close> in different directories, converted
  within the same millisecond, are rendered under the same identifier.
\<close>

theorem diagram_ids_collide:
  "fg demo_libs [INPUT_PATTERN demo_process] main_fg_options (cwd demo_process) same_names
     = Inr [''/w/diagrams/a/x.mmd'', ''/w/diagrams/b/x.mmd'']
   \<and> document (snd (script demo_libs demo_process (demo_world same_names (\<lambda>n. 1700000000000))))
     = [''mmd_x_mmd_1700000000000'', ''mmd_x_mmd_1700000000000'']"
  by (simp add: all_defs)

subsection \<open>One file after another\<close>



























subsection \<open>What the File Locator returns\<close>

lemma INPUT_PATTERN_nonempty: "INPUT_PATTERN pr \<noteq> []"
  by (simp add: INPUT_PATTERN_def or_default_def split: option.splits)

lemma is_file_listed: "is_file fs k \<Longrightarrow> k \<noteq> [] \<Longrightarrow> k \<in> fst ` set fs"
  by (auto simp: is_file_def node_at_def split: option.splits node.splits
      dest: map_of_SomeD intro: rev_image_eqI)

lemma below_nonempty: "below base k = Some rel \<Longrightarrow> k \<noteq> []"
  by (auto simp: below_def split: if_splits)

lemma is_absolute_path_of: "is_absolute (path_of k)"
  by (simp add: is_absolute_def path_of_def)

lemma locate_found:
  "locate M pr fs =
     Inr (remdups (map path_of (filter (\<lambda>k. \<exists>rel. below (resolved_segs (cwd pr) (cwd pr)) k = Some rel
            \<and> is_file fs k \<and> \<not> hidden rel
            \<and> M (map lower (INPUT_PATTERN pr)) (map lower (join_slash rel))) (map fst fs))))"
proof -
  have "fg_hit M [INPUT_PATTERN pr] main_fg_options base fs =
      (\<lambda>k. \<exists>rel. below base k = Some rel \<and> is_file fs k \<and> \<not> hidden rel
         \<and> M (map lower (INPUT_PATTERN pr)) (map lower (join_slash rel)))" for base
    by (rule ext) (simp add: fg_hit_def main_fg_options_def split: option.splits)
  moreover have "unique main_fg_options" "absolute main_fg_options"
    by (simp_all add: main_fg_options_def)
  ultimately show ?thesis
    by (simp add: locate_def fast_glob_def INPUT_PATTERN_nonempty Let_def)
qed

text \<open>
  C9. With the options \<^verbatim>\<open>main\<close> passes, the locator returns a list without repetition of
  absolute paths: exactly the paths of the regular files below the working directory whose
  relative path has no segment starting with a dot and matches the pattern once both are
  put in lower case. Directories are not among them, and two patterns that differ only in
  letter case select the same files.
\<close>

theorem locator_contract:
  "(\<exists>found. locate M pr fs = Inr found
      \<and> distinct found
      \<and> (\<forall>p \<in> set found. is_absolute p)
      \<and> set found = {path_of k | k rel.
           below (resolved_segs (cwd pr) (cwd pr)) k = Some rel \<and> is_file fs k \<and> \<not> hidden rel
           \<and> M (map lower (INPUT_PATTERN pr)) (map lower (join_slash rel))})
   \<and> (map lower (INPUT_PATTERN pr) = map lower (INPUT_PATTERN pr') \<and> cwd pr = cwd pr' \<longrightarrow>
        locate M pr fs = locate M pr' fs)"
proof (intro conjI impI)
  let ?hit = "\<lambda>k. \<exists>rel. below (resolved_segs (cwd pr) (cwd pr)) k = Some rel
            \<and> is_file fs k \<and> \<not> hidden rel
            \<and> M (map lower (INPUT_PATTERN pr)) (map lower (join_slash rel))"
  let ?found = "remdups (map path_of (filter ?hit (map fst fs)))"
  have "set ?found = {path_of k | k rel.
          below (resolved_segs (cwd pr) (cwd pr)) k = Some rel \<and> is_file fs k \<and> \<not> hidden rel
          \<and> M (map lower (INPUT_PATTERN pr)) (map lower (join_slash rel))}"
    using is_file_listed [of fs] below_nonempty by fastforce
  moreover have "\<forall>p \<in> set ?found. is_absolute p"
    by (auto simp: is_absolute_path_of)
  ultimately show "\<exists>found. locate M pr fs = Inr found
      \<and> distinct found
      \<and> (\<forall>p \<in> set found. is_absolute p)
      \<and> set found = {path_of k | k rel.
           below (resolved_segs (cwd pr) (cwd pr)) k = Some rel \<and> is_file fs k \<and> \<not> hidden rel
           \<and> M (map lower (INPUT_PATTERN pr)) (map lower (join_slash rel))}"
    using locate_found [of M pr fs] by (intro exI [of _ ?found]) simp
next
  assume "map lower (INPUT_PATTERN pr) = map lower (INPUT_PATTERN pr') \<and> cwd pr = cwd pr'"
  then show "locate M pr fs = locate M pr' fs"
    by (simp add: locate_found)
qed

theorem locator_contract_witness:
  "locate glob_match demo_process mixed = Inr [''/w/diagrams/B.MMD'', ''/w/diagrams/a.mmd'']
   \<and> is_absolute ''/w/diagrams/B.MMD'' \<and> is_absolute ''/w/diagrams/a.mmd''
   \<and> set [''/w/diagrams/B.MMD'', ''/w/diagrams/a.mmd''] = {path_of k | k rel.
        below (resolved_segs (cwd demo_process) (cwd demo_process)) k = Some rel
        \<and> is_file mixed k \<and> \<not> hidden rel
        \<and> glob_match (map lower (INPUT_PATTERN demo_process)) (map lower (join_slash rel))}
   \<and> map lower (INPUT_PATTERN demo_process) = map lower (INPUT_PATTERN upper_process)
   \<and> cwd demo_process = cwd upper_process
   \<and> locate glob_match demo_process mixed = locate glob_match upper_process mixed"
proof -
  have found: "locate glob_match demo_process mixed = Inr [''/w/diagrams/B.MMD'', ''/w/diagrams/a.mmd'']"
    by (simp add: all_defs)
  have folded: "map lower (INPUT_PATTERN demo_process) = map lower (INPUT_PATTERN upper_process)
      \<and> cwd demo_process = cwd upper_process"
    by (simp add: all_defs)
  note contract = locator_contract [where M = glob_match and pr = demo_process and fs = mixed
      and pr' = upper_process]
  from contract obtain fnd where
    "locate glob_match demo_process mixed = Inr fnd"
    and abs: "\<forall>p \<in> set fnd. is_absolute p"
    and all: "set fnd = {path_of k | k rel.
        below (resolved_segs (cwd demo_process) (cwd demo_process)) k = Some rel
        \<and> is_file mixed k \<and> \<not> hidden rel
        \<and> glob_match (map lower (INPUT_PATTERN demo_process)) (map lower (join_slash rel))}"
    by blast
  with found have "fnd = [''/w/diagrams/B.MMD'', ''/w/diagrams/a.mmd'']"
    by (simp only: sum.inject)
  with abs all
  have "\<forall>p \<in> set [''/w/diagrams/B.MMD'', ''/w/diagrams/a.mmd'']. is_absolute p"
    and "set [''/w/diagrams/B.MMD'', ''/w/diagrams/a.mmd''] = {path_of k | k rel.
        below (resolved_segs (cwd demo_process) (cwd demo_process)) k = Some rel
        \<and> is_file mixed k \<and> \<not> hidden rel
        \<and> glob_match (map lower (INPUT_PATTERN demo_process)) (map lower (join_slash rel))}"
    by (simp_all only:)
  then have "is_absolute ''/w/diagrams/B.MMD'' \<and> is_absolute ''/w/diagrams/a.mmd''
    \<and> set [''/w/diagrams/B.MMD'', ''/w/diagrams/a.mmd''] = {path_of k | k rel.
        below (resolved_segs (cwd demo_process) (cwd demo_process)) k = Some rel
        \<and> is_file mixed k \<and> \<not> hidden rel
        \<and> glob_match (map lower (INPUT_PATTERN demo_process)) (map lower (join_slash rel))}"
    by (simp only: list.set ball_simps insert_iff simp_thms)
  moreover from contract folded
  have "locate glob_match demo_process mixed = locate glob_match upper_process mixed"
    by blast
  ultimately show ?thesis
    using found folded by blast
qed

subsection \<open>A failure in the middle of a run\<close>

lemma write_png_console: "console (snd (write_png pr f png w)) = console w"
  by (simp add: write_png_def Let_def split: prod.splits sum.splits)

lemma renderOne_console: "console (snd (renderOne L pr f w)) = console w"
proof (cases "fst (to_png L pr f w)")
  case (Inl e)
  then show ?thesis by (simp add: renderOne_to_png_fails)
next
  case (Inr png)
  then show ?thesis by (simp add: renderOne_to_png_ok write_png_console)
qed

lemma main_loop_append:
  "main_loop L pr (xs @ ys) s = main_loop L pr ys (main_loop L pr xs s)"
  by (induction xs arbitrary: s) simp_all

lemma loop_body_grows:
  assumes "loop_body L pr g (ok, fail, w) = (ok1, fail1, w1)"
  shows "set (console w) \<subseteq> set (console w1) \<and> fail \<le> fail1"
  using assms renderOne_console [of L pr g w]
  by (auto simp: loop_body_def console_log_def console_error_def split: prod.splits sum.splits)

lemma main_loop_grows:
  "main_loop L pr files (ok, fail, w) = (ok', fail', w') \<Longrightarrow>
     set (console w) \<subseteq> set (console w') \<and> fail \<le> fail'"
proof (induction files arbitrary: ok fail w)
  case Nil
  then show ?case by simp
next
  case (Cons g files)
  obtain ok1 fail1 w1 where step: "loop_body L pr g (ok, fail, w) = (ok1, fail1, w1)"
    by (cases "loop_body L pr g (ok, fail, w)") auto
  with Cons.prems have "main_loop L pr files (ok1, fail1, w1) = (ok', fail', w')"
    by simp
  from Cons.IH [OF this] loop_body_grows [OF step] show ?case
    by auto
qed

lemma main_loop_all_fail:
  "\<forall>g \<in> set files. \<forall>v. fsys v = fsys w \<longrightarrow> (\<exists>e. fst (to_png L pr g v) = Inl e) \<Longrightarrow>
     \<exists>w'. main_loop L pr files (ok, fail, w) = (ok, fail + length files, w')"
proof (induction files arbitrary: fail w)
  case Nil
  then show ?case by simp
next
  case (Cons f files)
  from Cons.prems obtain e where failed: "fst (to_png L pr f w) = Inl e"
    by auto
  let ?w1 = "console_error (failure_line f e) (snd (to_png L pr f w))"
  have same: "fsys ?w1 = fsys w"
    by (simp add: console_error_def)
  with Cons.prems
  have "\<forall>g \<in> set files. \<forall>v. fsys v = fsys ?w1 \<longrightarrow> (\<exists>e. fst (to_png L pr g v) = Inl e)"
    by simp
  from Cons.IH [OF this, of "fail + 1"] failed_file_step [OF failed, of files ok fail] show ?case
    by simp
qed

text \<open>
  C1. Take a run in which the locator has returned the files \<open>before @ f # rest\<close>, the
  loop has gone through \<open>before\<close>, and \<open>renderOne\<close> ends with an error \<open>e\<close> for \<open>f\<close>,
  whatever the step that raised it. The loop catches the error: it writes to the error
  stream the cross, \<^verbatim>\<open>Failed:\<close>, the path of the file and, on the next line, the stack of
  the error (the error itself when it has none), adds one to the failure count and goes
  through \<open>rest\<close> from there. That line is still on the console and that failure still
  counted when the loop ends, and the script then prints the summary and ends with exit
  status 0. When every file of a run fails to convert, the run counts as many failures
  as files and no success, and still ends with exit status 0.
\<close>

theorem per_file_failure_is_caught:
  "(fg L [INPUT_PATTERN pr] main_fg_options (cwd pr) (fsys w0) = Inr (before @ f # rest)
      \<and> main_loop L pr before
          (0, 0, console_log (''Rendering '' @ dec (length (before @ f # rest))
                   @ '' Mermaid file(s) to PNG (no browser)...'') w0) = (ok, fail, w)
      \<and> fst (renderOne L pr f w) = Inl e \<longrightarrow>
      (\<exists>ok' fail' w'.
         main_loop L pr rest
           (ok, fail + 1,
            (snd (renderOne L pr f w))
              \<lparr>console := console w
                 @ [(Stderr, cross_mark @ '' Failed: '' @ f @ [CHR 0x0A]
                      @ (if stack e \<noteq> [] then stack e else ''Error: '' @ message e))]\<rparr>)
           = (ok', fail', w')
         \<and> fail < fail'
         \<and> (Stderr, cross_mark @ '' Failed: '' @ f @ [CHR 0x0A]
               @ (if stack e \<noteq> [] then stack e else ''Error: '' @ message e)) \<in> set (console w')
         \<and> script L pr w0 =
             (0, w'\<lparr>console := console w'
                    @ [(Stdout, ''Done. Success: '' @ dec ok' @ '', Failed: '' @ dec fail')]\<rparr>)))
   \<and> (fg L [INPUT_PATTERN pr] main_fg_options (cwd pr) (fsys w0) = Inr files \<and> files \<noteq> []
      \<and> (\<forall>g \<in> set files. \<forall>v. fsys v = fsys w0 \<longrightarrow> (\<exists>e. fst (to_png L pr g v) = Inl e)) \<longrightarrow>
      (\<exists>w'. main_loop L pr files
               (0, 0, console_log (''Rendering '' @ dec (length files)
                        @ '' Mermaid file(s) to PNG (no browser)...'') w0)
               = (0, length files, w')
         \<and> script L pr w0 =
             (0, w'\<lparr>console := console w'
                    @ [(Stdout, ''Done. Success: '' @ dec 0 @ '', Failed: '' @ dec (length files))]\<rparr>)))"
proof (intro conjI impI)
  let ?files = "before @ f # rest"
  let ?w1 = "console_log (''Rendering '' @ dec (length ?files)
               @ '' Mermaid file(s) to PNG (no browser)...'') w0"
  let ?line = "cross_mark @ '' Failed: '' @ f @ [CHR 0x0A]
               @ (if stack e \<noteq> [] then stack e else ''Error: '' @ message e)"
  let ?next = "(snd (renderOne L pr f w))\<lparr>console := console w @ [(Stderr, ?line)]\<rparr>"
  assume run: "fg L [INPUT_PATTERN pr] main_fg_options (cwd pr) (fsys w0) = Inr ?files
      \<and> main_loop L pr before (0, 0, ?w1) = (ok, fail, w)
      \<and> fst (renderOne L pr f w) = Inl e"
  then have failed: "fst (renderOne L pr f w) = Inl e" by blast
  have step: "loop_body L pr f (ok, fail, w) = (ok, fail + 1, ?next)"
    by (simp add: loop_body_failure [OF failed] console_error_def failure_line_def
        stack_or_self_def renderOne_console)
  obtain ok' fail' w' where rest: "main_loop L pr rest (ok, fail + 1, ?next) = (ok', fail', w')"
    by (cases "main_loop L pr rest (ok, fail + 1, ?next)") auto
  from run step rest have whole: "main_loop L pr ?files (0, 0, ?w1) = (ok', fail', w')"
    by (simp add: main_loop_append)
  from main_loop_grows [OF rest] have "fail < fail'" "(Stderr, ?line) \<in> set (console w')"
    by auto
  moreover from run whole have "script L pr w0 =
      (0, w'\<lparr>console := console w'
             @ [(Stdout, ''Done. Success: '' @ dec ok' @ '', Failed: '' @ dec fail')]\<rparr>)"
    by (simp add: script_def main_def console_log_def summary_line_def)
  ultimately show "\<exists>ok' fail' w'.
         main_loop L pr rest (ok, fail + 1, ?next) = (ok', fail', w')
         \<and> fail < fail'
         \<and> (Stderr, ?line) \<in> set (console w')
         \<and> script L pr w0 =
             (0, w'\<lparr>console := console w'
                    @ [(Stdout, ''Done. Success: '' @ dec ok' @ '', Failed: '' @ dec fail')]\<rparr>)"
    using rest by blast
next
  let ?w1 = "console_log (''Rendering '' @ dec (length files)
               @ '' Mermaid file(s) to PNG (no browser)...'') w0"
  assume all: "fg L [INPUT_PATTERN pr] main_fg_options (cwd pr) (fsys w0) = Inr files \<and> files \<noteq> []
      \<and> (\<forall>g \<in> set files. \<forall>v. fsys v = fsys w0 \<longrightarrow> (\<exists>e. fst (to_png L pr g v) = Inl e))"
  have "fsys ?w1 = fsys w0"
    by (simp add: console_log_def)
  with all have "\<forall>g \<in> set files. \<forall>v. fsys v = fsys ?w1 \<longrightarrow> (\<exists>e. fst (to_png L pr g v) = Inl e)"
    by simp
  from main_loop_all_fail [OF this, of 0 0]
  obtain w' where run: "main_loop L pr files (0, 0, ?w1) = (0, length files, w')"
    by auto
  with all have "script L pr w0 =
      (0, w'\<lparr>console := console w'
             @ [(Stdout, ''Done. Success: '' @ dec 0 @ '', Failed: '' @ dec (length files))]\<rparr>)"
    by (simp add: script_def main_def console_log_def summary_line_def)
  with run show "\<exists>w'. main_loop L pr files (0, 0, ?w1) = (0, length files, w')
         \<and> script L pr w0 =
             (0, w'\<lparr>console := console w'
                    @ [(Stdout, ''Done. Success: '' @ dec 0 @ '', Failed: '' @ dec (length files))]\<rparr>)"
    by blast
qed


theorem per_file_failure_is_caught_witness:
  "fg demo_libs [INPUT_PATTERN demo_process] main_fg_options (cwd demo_process)
      (fsys (demo_world both_bad ms)) = Inr ([''/w/diagrams/b.mmd''] @ ''/w/diagrams/c.mmd'' # [])
   \<and> fst (renderOne demo_libs demo_process ''/w/diagrams/c.mmd''
        (snd (snd (main_loop demo_libs demo_process [''/w/diagrams/b.mmd'']
           (0, 0, console_log ''Rendering 2 Mermaid file(s) to PNG (no browser)...''
              (demo_world both_bad ms))))))
     = Inl (Error ''Parse error on line 1'' [])
   \<and> fst (script demo_libs demo_process (demo_world both_bad ms)) = 0
   \<and> last (console (snd (script demo_libs demo_process (demo_world both_bad ms))))
     = (Stdout, ''Done. Success: 0, Failed: 2'')
   \<and> console (snd (script demo_libs demo_process (demo_world both_bad ms))) =
       [(Stdout, ''Rendering 2 Mermaid file(s) to PNG (no browser)...''),
        (Stderr, cross_mark @ '' Failed: /w/diagrams/b.mmd'' @ [CHR 0x0A]
           @ ''Error: Parse error on line 1''),
        (Stderr, cross_mark @ '' Failed: /w/diagrams/c.mmd'' @ [CHR 0x0A]
           @ ''Error: Parse error on line 1''),
        (Stdout, ''Done. Success: 0, Failed: 2'')]"
proof -
  let ?w0 = "demo_world both_bad ms"
  let ?w1 = "console_log ''Rendering 2 Mermaid file(s) to PNG (no browser)...'' ?w0"
  let ?mid = "main_loop demo_libs demo_process [''/w/diagrams/b.mmd''] (0, 0, ?w1)"
  let ?e = "Error ''Parse error on line 1'' []"
  have located: "fg demo_libs [INPUT_PATTERN demo_process] main_fg_options (cwd demo_process)
      (fsys ?w0) = Inr ([''/w/diagrams/b.mmd''] @ ''/w/diagrams/c.mmd'' # [])"
    by (simp add: all_defs)
  have rendering: "''Rendering '' @ dec (length ([''/w/diagrams/b.mmd''] @ ''/w/diagrams/c.mmd'' # []))
      @ '' Mermaid file(s) to PNG (no browser)...''
      = ''Rendering 2 Mermaid file(s) to PNG (no browser)...''"
    by (simp add: str_defs)
  have "fst ?mid = 0" "fst (snd ?mid) = 1"
    by (simp_all add: all_defs)
  then have reached: "?mid = (0, 1, snd (snd ?mid))"
    by (metis prod.collapse)
  have failed: "fst (renderOne demo_libs demo_process ''/w/diagrams/c.mmd'' (snd (snd ?mid))) = Inl ?e"
    by (simp add: all_defs)
  have every: "\<forall>g \<in> set ([''/w/diagrams/b.mmd''] @ ''/w/diagrams/c.mmd'' # []).
      \<forall>v. fsys v = fsys ?w0 \<longrightarrow> (\<exists>e. fst (to_png demo_libs demo_process g v) = Inl e)"
    by (simp add: all_defs)
  note caught = per_file_failure_is_caught
    [where L = demo_libs and pr = demo_process and ?w0.0 = ?w0
       and before = "[''/w/diagrams/b.mmd'']" and f = "''/w/diagrams/c.mmd''" and rest = "[]"
       and ok = 0 and fail = 1 and w = "snd (snd ?mid)" and e = ?e
       and files = "[''/w/diagrams/b.mmd''] @ ''/w/diagrams/c.mmd'' # []", unfolded rendering]
  from caught located reached failed
  obtain ok' fail' w' where "script demo_libs demo_process ?w0 =
      (0, w'\<lparr>console := console w'
             @ [(Stdout, ''Done. Success: '' @ dec ok' @ '', Failed: '' @ dec fail')]\<rparr>)"
    by blast
  then have exit: "fst (script demo_libs demo_process ?w0) = 0"
    by simp
  from caught located every
  obtain w'' where "script demo_libs demo_process ?w0 =
      (0, w''\<lparr>console := console w''
             @ [(Stdout, ''Done. Success: '' @ dec 0 @ '', Failed: ''
                   @ dec (length ([''/w/diagrams/b.mmd''] @ ''/w/diagrams/c.mmd'' # [])))]\<rparr>)"
    by blast
  then have summary: "last (console (snd (script demo_libs demo_process ?w0)))
      = (Stdout, ''Done. Success: 0, Failed: 2'')"
    by (simp add: str_defs)
  have lines: "console (snd (script demo_libs demo_process ?w0)) =
       [(Stdout, ''Rendering 2 Mermaid file(s) to PNG (no browser)...''),
        (Stderr, cross_mark @ '' Failed: /w/diagrams/b.mmd'' @ [CHR 0x0A]
           @ ''Error: Parse error on line 1''),
        (Stderr, cross_mark @ '' Failed: /w/diagrams/c.mmd'' @ [CHR 0x0A]
           @ ''Error: Parse error on line 1''),
        (Stdout, ''Done. Success: 0, Failed: 2'')]"
    by (simp add: all_defs)
  from located failed exit summary lines show ?thesis
    by blast
qed

subsection \<open>What a failed file leaves behind\<close>





end
